theory Spec2Isabelle
  imports Main
begin


section \<open>The ring registry of rtapi\_ring.c\<close>

text \<open>
  The file \<^verbatim>\<open>src/rtapi/rtapi_ring.c\<close> keeps a fixed table \<^verbatim>\<open>ring_array\<close> of
  \<^verbatim>\<open>ring_data\<close> slots and offers four operations on it: \<^verbatim>\<open>_rtapi_ring_new\<close>,
  \<^verbatim>\<open>_rtapi_ring_attach\<close>, \<^verbatim>\<open>_rtapi_ring_refcount\<close> and \<^verbatim>\<open>_rtapi_ring_detach\<close>.
  Each C function becomes a HOL function that takes the state and returns the C return
  value together with the new state.

  C \<^verbatim>\<open>int\<close> values (handles, module ids, keys, return codes) are HOL integers; none of
  the arithmetic of the file can overflow for a table that fits in memory.  A pointer is an
  address, \<^verbatim>\<open>NULL\<close> being address 0.
\<close>

subsection \<open>Constants and build configuration\<close>

type_synonym ptr = nat

definition NULL :: ptr where
  "NULL = 0"

text \<open>The two \<^verbatim>\<open>errno\<close> values the file returns (negated), with their Linux values.\<close>

definition ENOMEM :: int where
  "ENOMEM = 12"

definition EINVAL :: int where
  "EINVAL = 22"

text \<open>
  The constants \<^verbatim>\<open>RTAPI_MAX_RINGS\<close>, \<^verbatim>\<open>RTAPI_RING_SHM_KEY\<close> and \<^verbatim>\<open>RING_MAGIC\<close> and the
  preprocessor symbols \<^verbatim>\<open>BUILD_SYS_KBUILD\<close> and \<^verbatim>\<open>ULAPI\<close> come from headers that are
  not part of the file, so the model takes them as parameters.  A build without
  \<^verbatim>\<open>BUILD_SYS_KBUILD\<close> is the user-space build, which is the one that has
  \<^verbatim>\<open>ring_addr_array\<close>.
\<close>

record config =
  BUILD_SYS_KBUILD :: bool
  ULAPI :: bool
  RTAPI_MAX_RINGS :: nat
  RTAPI_RING_SHM_KEY :: int
  RING_MAGIC :: int

subsection \<open>Data\<close>

text \<open>
  A slot of the table.  The bitmap is indexed by module id; the model keeps it as the set
  of the bit numbers that are set, so \<^verbatim>\<open>set_bit\<close> inserts, \<^verbatim>\<open>clear_bit\<close> removes and
  \<^verbatim>\<open>test_bit\<close> is membership.  (A bit number outside the C array is undefined behaviour
  in C; the width of the array is declared in a header outside the file.)
\<close>

record ring_data =
  magic :: int
  key :: int
  owner :: int
  shmem_id :: int
  bitmap :: "int set"
  count :: int

definition set_bit_bm :: "int \<Rightarrow> int set \<Rightarrow> int set" where
  "set_bit_bm nr bm = insert nr bm"

definition clear_bit_bm :: "int \<Rightarrow> int set \<Rightarrow> int set" where
  "clear_bit_bm nr bm = bm - {nr}"

definition test_bit_bm :: "int \<Rightarrow> int set \<Rightarrow> bool" where
  "test_bit_bm nr bm = (nr \<in> bm)"

text \<open>
  The shared-memory layer (\<^verbatim>\<open>_rtapi_shmem_new\<close>, \<^verbatim>\<open>_rtapi_shmem_getptr\<close>,
  \<^verbatim>\<open>_rtapi_shmem_delete\<close>, \<^verbatim>\<open>shmget\<close>) and the ring header helpers
  (\<^verbatim>\<open>rtapi_ring_memsize\<close>, \<^verbatim>\<open>rtapi_ringheader_init\<close>) are external to the file.  They
  are parameters of the model: functions over an arbitrary backend state \<open>'b\<close>, so that
  every theorem holds for every behaviour of the backend.

  \<^item> \<open>shmem_new key module_id size\<close> returns the segment id, negative on failure;
  \<^item> \<open>shmem_getptr shmem_id\<close> returns the C return value and the pointer it stores
    through its second argument; nothing is stored when the return value is not 0;
  \<^item> \<open>shmem_delete shmem_id module_id\<close> returns the C return value;
  \<^item> \<open>shmget_enoent k\<close> is the test
    \<^verbatim>\<open>(shmget(OS_KEY(k), 1, 0) == -1) && (errno == ENOENT)\<close>;
  \<^item> \<open>ring_memsize flags size sp_size\<close> is the size of the allocation;
  \<^item> \<open>ringheader_init rhptr flags size sp_size\<close> writes the header into the segment.
\<close>

record 'b backend =
  shmem_new :: "int \<Rightarrow> int \<Rightarrow> nat \<Rightarrow> 'b \<Rightarrow> int \<times> 'b"
  shmem_getptr :: "int \<Rightarrow> 'b \<Rightarrow> (int \<times> ptr) \<times> 'b"
  shmem_delete :: "int \<Rightarrow> int \<Rightarrow> 'b \<Rightarrow> int \<times> 'b"
  shmget_enoent :: "int \<Rightarrow> 'b \<Rightarrow> bool"
  ring_memsize :: "int \<Rightarrow> nat \<Rightarrow> nat \<Rightarrow> nat"
  ringheader_init :: "ptr \<Rightarrow> int \<Rightarrow> nat \<Rightarrow> nat \<Rightarrow> 'b \<Rightarrow> 'b"

text \<open>
  The state the four operations work on: the table, the process-local array of mapped
  addresses, bit 0 of the two lock words \<^verbatim>\<open>rtapi_data->ring_mutex\<close> and
  \<^verbatim>\<open>rtapi_data->mutex\<close>, the backend, and the messages printed by
  \<^verbatim>\<open>rtapi_print_msg\<close> (the format strings, oldest first).  \<^verbatim>\<open>rtapi_data\<close> itself is
  not \<^verbatim>\<open>NULL\<close>: the operations dereference it before anything else.
\<close>

record 'b rtapi =
  ring_array :: "ring_data list"
  ring_addr_array :: "ptr list"
  ring_mutex :: bool
  mutex :: bool
  shm :: 'b
  msgs :: "string list"

definition wf_state :: "config \<Rightarrow> 'b rtapi \<Rightarrow> bool" where
  "wf_state cfg s =
     (length (ring_array s) = RTAPI_MAX_RINGS cfg \<and>
      length (ring_addr_array s) = RTAPI_MAX_RINGS cfg + 1)"

definition rtapi_print_msg :: "string \<Rightarrow> 'b rtapi \<Rightarrow> 'b rtapi" where
  "rtapi_print_msg m s = s\<lparr>msgs := msgs s @ [m]\<rparr>"

text \<open>\<open>upd_slot i f\<close> is an assignment through \<^verbatim>\<open>rdptr = &ring_array[i]\<close>.\<close>

definition upd_slot :: "nat \<Rightarrow> (ring_data \<Rightarrow> ring_data) \<Rightarrow> 'b rtapi \<Rightarrow> 'b rtapi" where
  "upd_slot i f s = s\<lparr>ring_array := (ring_array s)[i := f (ring_array s ! i)]\<rparr>"

subsection \<open>The locks\<close>

text \<open>
  Modelled from the spec: \<^verbatim>\<open>rtapi_mutex_get\<close> and \<^verbatim>\<open>rtapi_mutex_give\<close> are defined in
  a header outside the file.  Acquisition is blocking with no timeout: a caller waits until
  the lock is free and then takes it.  The model runs one operation at a time, so nobody
  frees a lock that is taken: there the call does not return, which is the value \<open>None\<close>.
  Giving clears the bit.
\<close>

definition rtapi_mutex_get_ring :: "'b rtapi \<Rightarrow> 'b rtapi option" where
  "rtapi_mutex_get_ring s = (if ring_mutex s then None else Some (s\<lparr>ring_mutex := True\<rparr>))"

text \<open>
  Modelled from the spec: the same \<^verbatim>\<open>rtapi_mutex_get\<close>, called on the other lock word,
  \<^verbatim>\<open>rtapi_data->mutex\<close>.
\<close>

definition rtapi_mutex_get_rtapi :: "'b rtapi \<Rightarrow> 'b rtapi option" where
  "rtapi_mutex_get_rtapi s = (if mutex s then None else Some (s\<lparr>mutex := True\<rparr>))"

definition mutex_not_set :: string where
  "mutex_not_set = ''ring_autorelease_mutex: mutex not set!''"

text \<open>The cleanup handler of lines 35 to 49, run when the scope of \<^verbatim>\<open>rdptr\<close> is left.\<close>

definition ring_autorelease_mutex :: "'b rtapi \<Rightarrow> 'b rtapi" where
  "ring_autorelease_mutex s =
     (if \<not> ring_mutex s then rtapi_print_msg mutex_not_set s else s)\<lparr>ring_mutex := False\<rparr>"

text \<open>
  Modelled from the spec: \<^verbatim>\<open>rtapi_autorelease_mutex\<close>, the cleanup handler of
  \<^verbatim>\<open>_rtapi_ring_refcount\<close>, is defined outside the file.  It is the guaranteed release
  of the lock that function took, \<^verbatim>\<open>rtapi_data->mutex\<close>.
\<close>

definition rtapi_autorelease_mutex :: "'b rtapi \<Rightarrow> 'b rtapi" where
  "rtapi_autorelease_mutex s = s\<lparr>mutex := False\<rparr>"

subsection \<open>\_rtapi\_ring\_new\<close>

text \<open>The search loop of lines 61 to 64; its result is the value of \<^verbatim>\<open>i\<close> after the loop.\<close>

function free_slot_scan :: "config \<Rightarrow> ring_data list \<Rightarrow> nat \<Rightarrow> nat" where
  "free_slot_scan cfg ra i =
     (if i < RTAPI_MAX_RINGS cfg
      then (if magic (ra ! i) \<noteq> RING_MAGIC cfg then i else free_slot_scan cfg ra (Suc i))
      else i)"
  by pat_completeness auto
termination
  by (relation "measure (\<lambda>(cfg, ra, i). RTAPI_MAX_RINGS cfg - i)") auto

declare free_slot_scan.simps [simp del]

definition msg_new_exceeded :: string where
  "msg_new_exceeded = ''rtapi_ring_new failed due to RTAPI_MAX_RINGS exceeded''"

definition msg_new_shmem_new :: string where
  "msg_new_shmem_new = ''rtapi_ring_new: rtapi_shmem_new(0x%8.8x,%d,%d) failed: %d''"

definition msg_new_getptr :: string where
  "msg_new_getptr = ''_rtapi_ring_new: rtapi_shmem_getptr failed %d''"

text \<open>Lines 88 to 111: the segment exists, map it, initialise the header, commit.\<close>

definition ring_new_commit ::
  "config \<Rightarrow> 'b backend \<Rightarrow> nat \<Rightarrow> nat \<Rightarrow> nat \<Rightarrow> int \<Rightarrow> int \<Rightarrow> 'b rtapi \<Rightarrow> int \<times> 'b rtapi" where
  "ring_new_commit cfg be i rsize sp_size module_id flags s =
     (case shmem_getptr be (shmem_id (ring_array s ! i)) (shm s) of
        ((rv, rhptr), b) \<Rightarrow>
          if rv \<noteq> 0 then (- ENOMEM, rtapi_print_msg msg_new_getptr (s\<lparr>shm := b\<rparr>))
          else
            (int i,
             upd_slot i (\<lambda>rd. rd\<lparr>magic := RING_MAGIC cfg\<rparr>)
               (upd_slot i (\<lambda>rd. rd\<lparr>bitmap := set_bit_bm module_id (bitmap rd)\<rparr>)
                 (s\<lparr>ring_addr_array :=
                       (if ULAPI cfg then (ring_addr_array s)[i := rhptr]
                        else ring_addr_array s),
                    shm := ringheader_init be rhptr flags rsize sp_size b\<rparr>))))"

text \<open>Lines 60 to 86, then the rest; the lock is held around this body.\<close>

definition ring_new_body ::
  "config \<Rightarrow> 'b backend \<Rightarrow> nat \<Rightarrow> nat \<Rightarrow> int \<Rightarrow> int \<Rightarrow> 'b rtapi \<Rightarrow> int \<times> 'b rtapi" where
  "ring_new_body cfg be rsize sp_size module_id flags s =
     (let i = free_slot_scan cfg (ring_array s) 0 in
      if i = RTAPI_MAX_RINGS cfg then (- ENOMEM, rtapi_print_msg msg_new_exceeded s)
      else
        (let total_size = ring_memsize be flags rsize sp_size;
             k = RTAPI_RING_SHM_KEY cfg + int i;
             s1 = upd_slot i (\<lambda>rd. rd\<lparr>key := k, owner := module_id\<rparr>) s
         in case shmem_new be k module_id total_size (shm s1) of
              (sid, b) \<Rightarrow>
                (let s2 = upd_slot i (\<lambda>rd. rd\<lparr>shmem_id := sid\<rparr>) (s1\<lparr>shm := b\<rparr>)
                 in if sid < 0 then (- ENOMEM, rtapi_print_msg msg_new_shmem_new s2)
                    else ring_new_commit cfg be i rsize sp_size module_id flags s2)))"

text \<open>
  The whole function: \<^verbatim>\<open>rtapi_mutex_get\<close> on the ring lock at line 58, the body, and the
  cleanup handler at every \<^verbatim>\<open>return\<close>.
\<close>

definition rtapi_ring_new ::
  "config \<Rightarrow> 'b backend \<Rightarrow> nat \<Rightarrow> nat \<Rightarrow> int \<Rightarrow> int \<Rightarrow> 'b rtapi \<Rightarrow> (int \<times> 'b rtapi) option" where
  "rtapi_ring_new cfg be rsize sp_size module_id flags s =
     (case rtapi_mutex_get_ring s of
        None \<Rightarrow> None
      | Some s0 \<Rightarrow>
          (case ring_new_body cfg be rsize sp_size module_id flags s0 of
             (r, s1) \<Rightarrow> Some (r, ring_autorelease_mutex s1)))"

subsection \<open>\_rtapi\_ring\_attach\<close>

definition msg_attach_getptr_k :: string where
  "msg_attach_getptr_k = ''_rtapi_ring_attach(%d): rtapi_shmem_getptr failed %d''"

definition msg_attach_bug :: string where
  "msg_attach_bug = ''_rtapi_ring_attach(%d): BUG rhptr == NULL''"

definition msg_attach_invalid :: string where
  "msg_attach_invalid = ''rtapi_ring_attach: invalid ring handle %d''"

definition msg_attach_shmem_new :: string where
  "msg_attach_shmem_new =
     ''rtapi_ring_attach(): rtapi_shmem_new(key 0x%8.8x owner %d ) failed:  %d''"

definition msg_attach_getptr :: string where
  "msg_attach_getptr = ''_rtapi_ring_attach: rtapi_shmem_getptr failed %d''"

text \<open>
  Lines 186 to 190.  \<^verbatim>\<open>rtapi_ringbufer_init\<close> fills the caller's \<^verbatim>\<open>ringbuffer_t\<close>,
  which is not part of the registry state.
\<close>

definition attach_record :: "nat \<Rightarrow> int \<Rightarrow> 'b rtapi \<Rightarrow> int \<times> 'b rtapi" where
  "attach_record h module_id s =
     (0, upd_slot h (\<lambda>rd. rd\<lparr>bitmap := set_bit_bm module_id (bitmap rd)\<rparr>) s)"

text \<open>Lines 127 to 145: the slot is committed.\<close>

definition attach_committed ::
  "config \<Rightarrow> 'b backend \<Rightarrow> nat \<Rightarrow> int \<Rightarrow> 'b rtapi \<Rightarrow> int \<times> 'b rtapi" where
  "attach_committed cfg be h module_id s =
     (if BUILD_SYS_KBUILD cfg then
        (case shmem_getptr be (shmem_id (ring_array s ! h)) (shm s) of
           ((retval, rhptr), b) \<Rightarrow>
             if retval \<noteq> 0
             then (- ENOMEM, rtapi_print_msg msg_attach_getptr_k (s\<lparr>shm := b\<rparr>))
             else attach_record h module_id (s\<lparr>shm := b\<rparr>))
      else
        (if ring_addr_array s ! h = NULL
         then (- ENOMEM, rtapi_print_msg msg_attach_bug s)
         else attach_record h module_id s))"

text \<open>Lines 147 to 183: the slot is not committed.\<close>

definition attach_uncommitted ::
  "config \<Rightarrow> 'b backend \<Rightarrow> nat \<Rightarrow> int \<Rightarrow> 'b rtapi \<Rightarrow> int \<times> 'b rtapi" where
  "attach_uncommitted cfg be h module_id s =
     (if BUILD_SYS_KBUILD cfg then (- ENOMEM, rtapi_print_msg msg_attach_invalid s)
      else
        (let k = RTAPI_RING_SHM_KEY cfg + int h in
         if shmget_enoent be k (shm s) then (- EINVAL, rtapi_print_msg msg_attach_invalid s)
         else
           (let s1 = upd_slot h (\<lambda>rd. rd\<lparr>key := k\<rparr>) s
            in case shmem_new be k module_id 0 (shm s1) of
                 (sid, b) \<Rightarrow>
                   (let s2 = upd_slot h (\<lambda>rd. rd\<lparr>shmem_id := sid\<rparr>) (s1\<lparr>shm := b\<rparr>)
                    in if sid < 0 then (- ENOMEM, rtapi_print_msg msg_attach_shmem_new s2)
                       else
                         (case shmem_getptr be sid (shm s2) of
                            ((rv, p), b') \<Rightarrow>
                              if rv \<noteq> 0
                              then (- ENOMEM, rtapi_print_msg msg_attach_getptr (s2\<lparr>shm := b'\<rparr>))
                              else
                                attach_record h module_id
                                  (upd_slot h (\<lambda>rd. rd\<lparr>count := count rd + 1\<rparr>)
                                    (upd_slot h (\<lambda>rd. rd\<lparr>magic := RING_MAGIC cfg\<rparr>)
                                      (s2\<lparr>ring_addr_array := (ring_addr_array s2)[h := p],
                                          shm := b'\<rparr>))))))))"

definition ring_attach_body ::
  "config \<Rightarrow> 'b backend \<Rightarrow> int \<Rightarrow> int \<Rightarrow> 'b rtapi \<Rightarrow> int \<times> 'b rtapi" where
  "ring_attach_body cfg be handle module_id s =
     (if handle < 0 \<or> handle \<ge> int (RTAPI_MAX_RINGS cfg) then (- EINVAL, s)
      else if magic (ring_array s ! nat handle) = RING_MAGIC cfg
           then attach_committed cfg be (nat handle) module_id s
           else attach_uncommitted cfg be (nat handle) module_id s)"

definition rtapi_ring_attach ::
  "config \<Rightarrow> 'b backend \<Rightarrow> int \<Rightarrow> int \<Rightarrow> 'b rtapi \<Rightarrow> (int \<times> 'b rtapi) option" where
  "rtapi_ring_attach cfg be handle module_id s =
     (case rtapi_mutex_get_ring s of
        None \<Rightarrow> None
      | Some s0 \<Rightarrow>
          (case ring_attach_body cfg be handle module_id s0 of
             (r, s1) \<Rightarrow> Some (r, ring_autorelease_mutex s1)))"

subsection \<open>\_rtapi\_ring\_refcount\<close>

text \<open>The counting loop of lines 210 to 212; its result is \<^verbatim>\<open>count\<close> after the loop.\<close>

function count_bits :: "config \<Rightarrow> int set \<Rightarrow> nat \<Rightarrow> int \<Rightarrow> int" where
  "count_bits cfg bm i cnt =
     (if i < RTAPI_MAX_RINGS cfg
      then count_bits cfg bm (Suc i) (if test_bit_bm (int i) bm then cnt + 1 else cnt)
      else cnt)"
  by pat_completeness auto
termination
  by (relation "measure (\<lambda>(cfg, bm, i, cnt). RTAPI_MAX_RINGS cfg - i)") auto

declare count_bits.simps [simp del]

definition ring_refcount_body :: "config \<Rightarrow> int \<Rightarrow> 'b rtapi \<Rightarrow> int" where
  "ring_refcount_body cfg handle s =
     (if handle < 0 \<or> handle \<ge> int (RTAPI_MAX_RINGS cfg) then - EINVAL
      else if magic (ring_array s ! nat handle) \<noteq> RING_MAGIC cfg then - EINVAL
      else count_bits cfg (bitmap (ring_array s ! nat handle)) 0 0)"

text \<open>The lock taken at line 203 is \<^verbatim>\<open>rtapi_data->mutex\<close>, not the ring lock.\<close>

definition rtapi_ring_refcount ::
  "config \<Rightarrow> int \<Rightarrow> 'b rtapi \<Rightarrow> (int \<times> 'b rtapi) option" where
  "rtapi_ring_refcount cfg handle s =
     (case rtapi_mutex_get_rtapi s of
        None \<Rightarrow> None
      | Some s0 \<Rightarrow> Some (ring_refcount_body cfg handle s0, rtapi_autorelease_mutex s0))"

subsection \<open>\_rtapi\_ring\_detach\<close>

definition msg_detach_remaining :: string where
  "msg_detach_remaining =
     ''rtapi_ring_detach: handle=%d module=%d key=0x%x:  %d remaining users''"

definition msg_detach_delete :: string where
  "msg_detach_delete = ''_rtapi_ring_detach: rtapi_shmem_delete failed %d/%d''"

text \<open>Lines 241 to 251: the count dropped to zero.\<close>

definition detach_release :: "'b backend \<Rightarrow> nat \<Rightarrow> 'b rtapi \<Rightarrow> int \<times> 'b rtapi" where
  "detach_release be h s =
     (case shmem_delete be (shmem_id (ring_array s ! h)) (owner (ring_array s ! h)) (shm s) of
        (rv, b) \<Rightarrow>
          (0, upd_slot h (\<lambda>rd. rd\<lparr>magic := 0\<rparr>)
                (if rv \<noteq> 0 then rtapi_print_msg msg_detach_delete (s\<lparr>shm := b\<rparr>)
                 else s\<lparr>shm := b\<rparr>)))"

text \<open>
  Lines 221 to 251.  The function has no \<^verbatim>\<open>rtapi_mutex_get\<close>.  The call of
  \<^verbatim>\<open>_rtapi_ring_refcount\<close> takes and gives \<^verbatim>\<open>rtapi_data->mutex\<close> and may wait for it.
\<close>

definition ring_detach_body ::
  "config \<Rightarrow> 'b backend \<Rightarrow> int \<Rightarrow> int \<Rightarrow> 'b rtapi \<Rightarrow> (int \<times> 'b rtapi) option" where
  "ring_detach_body cfg be handle module_id s =
     (if handle < 0 \<or> handle \<ge> int (RTAPI_MAX_RINGS cfg) then Some (- EINVAL, s)
      else if magic (ring_array s ! nat handle) \<noteq> RING_MAGIC cfg then Some (- EINVAL, s)
      else
        (case rtapi_ring_refcount cfg handle
                (upd_slot (nat handle)
                   (\<lambda>rd. rd\<lparr>bitmap := clear_bit_bm module_id (bitmap rd)\<rparr>) s) of
           None \<Rightarrow> None
         | Some (cnt, s1) \<Rightarrow>
             if cnt \<noteq> 0 then Some (0, rtapi_print_msg msg_detach_remaining s1)
             else Some (detach_release be (nat handle) s1)))"

text \<open>The cleanup handler of \<^verbatim>\<open>rdptr\<close> gives the ring lock at every \<^verbatim>\<open>return\<close>.\<close>

definition rtapi_ring_detach ::
  "config \<Rightarrow> 'b backend \<Rightarrow> int \<Rightarrow> int \<Rightarrow> 'b rtapi \<Rightarrow> (int \<times> 'b rtapi) option" where
  "rtapi_ring_detach cfg be handle module_id s =
     (case ring_detach_body cfg be handle module_id s of
        None \<Rightarrow> None
      | Some (r, s1) \<Rightarrow> Some (r, ring_autorelease_mutex s1))"

subsection \<open>The calls made by \_rtapi\_ring\_new\<close>

definition new_slot :: "config \<Rightarrow> 'b rtapi \<Rightarrow> nat" where
  "new_slot cfg s = free_slot_scan cfg (ring_array s) 0"

definition new_segment ::
  "config \<Rightarrow> 'b backend \<Rightarrow> nat \<Rightarrow> nat \<Rightarrow> int \<Rightarrow> int \<Rightarrow> 'b rtapi \<Rightarrow> int \<times> 'b" where
  "new_segment cfg be rsize sp_size module_id flags s =
     shmem_new be (RTAPI_RING_SHM_KEY cfg + int (new_slot cfg s)) module_id
       (ring_memsize be flags rsize sp_size) (shm s)"

definition new_mapping ::
  "config \<Rightarrow> 'b backend \<Rightarrow> nat \<Rightarrow> nat \<Rightarrow> int \<Rightarrow> int \<Rightarrow> 'b rtapi \<Rightarrow> (int \<times> ptr) \<times> 'b" where
  "new_mapping cfg be rsize sp_size module_id flags s =
     shmem_getptr be (fst (new_segment cfg be rsize sp_size module_id flags s))
       (snd (new_segment cfg be rsize sp_size module_id flags s))"

definition new_fails ::
  "config \<Rightarrow> 'b backend \<Rightarrow> nat \<Rightarrow> nat \<Rightarrow> int \<Rightarrow> int \<Rightarrow> 'b rtapi \<Rightarrow> bool" where
  "new_fails cfg be rsize sp_size module_id flags s =
     (new_slot cfg s = RTAPI_MAX_RINGS cfg \<or>
      fst (new_segment cfg be rsize sp_size module_id flags s) < 0 \<or>
      fst (fst (new_mapping cfg be rsize sp_size module_id flags s)) \<noteq> 0)"

text \<open>A run of calls of \<^verbatim>\<open>_rtapi_ring_new\<close>, one after the other, with their return values.\<close>

fun ring_new_seq ::
  "config \<Rightarrow> 'b backend \<Rightarrow> (nat \<times> nat \<times> int \<times> int) list \<Rightarrow> 'b rtapi \<Rightarrow>
     (int list \<times> 'b rtapi) option" where
  "ring_new_seq cfg be [] s = Some ([], s)"
| "ring_new_seq cfg be ((rsize, sp_size, module_id, flags) # calls) s =
     (case rtapi_ring_new cfg be rsize sp_size module_id flags s of
        None \<Rightarrow> None
      | Some (r, s1) \<Rightarrow>
          (case ring_new_seq cfg be calls s1 of
             None \<Rightarrow> None
           | Some (rs, s2) \<Rightarrow> Some (r # rs, s2)))"

text \<open>
  A backend that never fails in \<^verbatim>\<open>_rtapi_shmem_new\<close> and \<^verbatim>\<open>_rtapi_shmem_getptr\<close>, the
  two calls \<^verbatim>\<open>_rtapi_ring_new\<close> makes.
\<close>

definition backend_succeeds :: "'b backend \<Rightarrow> bool" where
  "backend_succeeds be =
     ((\<forall>k m sz b. 0 \<le> fst (shmem_new be k m sz b)) \<and>
      (\<forall>sid b. fst (fst (shmem_getptr be sid b)) = 0))"

text \<open>
  \<open>committed_upto cfg s k\<close>: the slots below \<open>k\<close> are committed and the others are free.
  The empty table is \<open>committed_upto cfg s 0\<close>.
\<close>

definition committed_upto :: "config \<Rightarrow> 'b rtapi \<Rightarrow> nat \<Rightarrow> bool" where
  "committed_upto cfg s k =
     (\<forall>j < RTAPI_MAX_RINGS cfg.
        (magic (ring_array s ! j) = RING_MAGIC cfg) = (j < k))"

text \<open>
  The bits the loop of \<^verbatim>\<open>_rtapi_ring_refcount\<close> looks at: it tests the bit numbers
  \<open>0\<close> to \<open>RTAPI_MAX_RINGS - 1\<close>.
\<close>

definition counted :: "config \<Rightarrow> int set \<Rightarrow> int set" where
  "counted cfg bm = {i \<in> bm. 0 \<le> i \<and> i < int (RTAPI_MAX_RINGS cfg)}"

subsection \<open>Reachable states\<close>

text \<open>
  A module id is in the counted range when it is one of the bit numbers the loop of
  \<^verbatim>\<open>_rtapi_ring_refcount\<close> tests.
\<close>

definition module_in_range :: "config \<Rightarrow> int \<Rightarrow> bool" where
  "module_in_range cfg m = (0 \<le> m \<and> m < int (RTAPI_MAX_RINGS cfg))"

text \<open>An initial state: the table has its size, both locks are free, no slot is committed.\<close>

definition initial :: "config \<Rightarrow> 'b rtapi \<Rightarrow> bool" where
  "initial cfg s = (wf_state cfg s \<and> \<not> ring_mutex s \<and> \<not> mutex s \<and> committed_upto cfg s 0)"

text \<open>
  The states reached from an initial state by completed calls of the four operations,
  with any arguments but module ids in the counted range, and any return value.
\<close>

inductive reachable :: "config \<Rightarrow> 'b backend \<Rightarrow> 'b rtapi \<Rightarrow> bool"
  for cfg :: config and be :: "'b backend" where
  start: "initial cfg s \<Longrightarrow> reachable cfg be s"
| create: "reachable cfg be s \<Longrightarrow> module_in_range cfg module_id \<Longrightarrow>
     rtapi_ring_new cfg be rsize sp_size module_id flags s = Some (r, s') \<Longrightarrow>
     reachable cfg be s'"
| attach: "reachable cfg be s \<Longrightarrow> module_in_range cfg module_id \<Longrightarrow>
     rtapi_ring_attach cfg be handle module_id s = Some (r, s') \<Longrightarrow>
     reachable cfg be s'"
| detach: "reachable cfg be s \<Longrightarrow> module_in_range cfg module_id \<Longrightarrow>
     rtapi_ring_detach cfg be handle module_id s = Some (r, s') \<Longrightarrow>
     reachable cfg be s'"
| refcount: "reachable cfg be s \<Longrightarrow>
     rtapi_ring_refcount cfg handle s = Some (r, s') \<Longrightarrow>
     reachable cfg be s'"

text \<open>
  What the calls preserve: the sizes, both locks free between calls, and in every committed
  slot a counted bit set.
\<close>

definition ring_inv :: "config \<Rightarrow> 'b rtapi \<Rightarrow> bool" where
  "ring_inv cfg s =
     (wf_state cfg s \<and> \<not> ring_mutex s \<and> \<not> mutex s \<and>
      (\<forall>j < RTAPI_MAX_RINGS cfg.
         magic (ring_array s ! j) = RING_MAGIC cfg \<longrightarrow>
           counted cfg (bitmap (ring_array s ! j)) \<noteq> {}))"

subsection \<open>Sample configurations, backends and states\<close>

text \<open>
  Concrete values at which the theorems below are instantiated.  The numbers of the
  configurations are samples; the backend counts the segments it has handed out, and each
  of its calls succeeds or fails as its parameters say.
\<close>

definition user_cfg :: "nat \<Rightarrow> config" where
  "user_cfg n =
     \<lparr>BUILD_SYS_KBUILD = False, ULAPI = True, RTAPI_MAX_RINGS = n,
      RTAPI_RING_SHM_KEY = 4280320, RING_MAGIC = 1380535879\<rparr>"

definition kernel_cfg :: "nat \<Rightarrow> config" where
  "kernel_cfg n =
     \<lparr>BUILD_SYS_KBUILD = True, ULAPI = False, RTAPI_MAX_RINGS = n,
      RTAPI_RING_SHM_KEY = 4280320, RING_MAGIC = 1380535879\<rparr>"

definition test_backend :: "bool \<Rightarrow> bool \<Rightarrow> bool \<Rightarrow> bool \<Rightarrow> nat backend" where
  "test_backend new_ok map_ok del_ok seg_absent =
     \<lparr>shmem_new = (\<lambda>k m sz b. if new_ok then (int (Suc b), Suc b) else (- EINVAL, b)),
      shmem_getptr =
        (\<lambda>sid b. if map_ok then ((0, 4096 * nat sid), b) else ((- EINVAL, NULL), b)),
      shmem_delete = (\<lambda>sid m b. if del_ok then (0, b) else (- EINVAL, b)),
      shmget_enoent = (\<lambda>k b. seg_absent),
      ring_memsize = (\<lambda>flags sz sp. 64 + sz + sp),
      ringheader_init = (\<lambda>p flags sz sp b. b)\<rparr>"

definition free_slot :: ring_data where
  "free_slot = \<lparr>magic = 0, key = 0, owner = 0, shmem_id = 0, bitmap = {}, count = 0\<rparr>"

definition empty_table :: "config \<Rightarrow> 'b \<Rightarrow> 'b rtapi" where
  "empty_table cfg b =
     \<lparr>ring_array = replicate (RTAPI_MAX_RINGS cfg) free_slot,
      ring_addr_array = replicate (RTAPI_MAX_RINGS cfg + 1) NULL,
      ring_mutex = False, mutex = False, shm = b, msgs = []\<rparr>"


text \<open>
  The table of \<open>user_cfg 8\<close> with one ring, created by module 7 in slot 0 and mapped at
  address 4096, whose bitmap is \<open>bm\<close>.
\<close>

definition one_ring :: "int set \<Rightarrow> nat rtapi" where
  "one_ring bm =
     \<lparr>ring_array =
        \<lparr>magic = 1380535879, key = 4280320, owner = 7, shmem_id = 1, bitmap = bm, count = 0\<rparr> #
        replicate 7 free_slot,
      ring_addr_array = 4096 # replicate 8 NULL,
      ring_mutex = False, mutex = False, shm = 1, msgs = []\<rparr>"

text \<open>
  The same table after module 7, the only attacher, has detached and the backend has
  refused to delete the segment.
\<close>

definition one_ring_freed :: "nat rtapi" where
  "one_ring_freed =
     \<lparr>ring_array =
        \<lparr>magic = 0, key = 4280320, owner = 7, shmem_id = 1, bitmap = {}, count = 0\<rparr> #
        replicate 7 free_slot,
      ring_addr_array = 4096 # replicate 8 NULL,
      ring_mutex = False, mutex = False, shm = 1,
      msgs = [msg_detach_delete, mutex_not_set]\<rparr>"

text \<open>
  The table of \<open>user_cfg 8\<close> with two rings: the one of module 7 in slot 0 and one
  created by module 3 in slot 1, whose bitmap is \<open>bm\<close>.
\<close>

definition two_rings :: "int set \<Rightarrow> nat rtapi" where
  "two_rings bm =
     \<lparr>ring_array =
        \<lparr>magic = 1380535879, key = 4280320, owner = 7, shmem_id = 1, bitmap = {7}, count = 0\<rparr> #
        \<lparr>magic = 1380535879, key = 4280321, owner = 3, shmem_id = 2, bitmap = bm, count = 0\<rparr> #
        replicate 6 free_slot,
      ring_addr_array = 4096 # 8192 # replicate 7 NULL,
      ring_mutex = False, mutex = False, shm = 2, msgs = []\<rparr>"

section \<open>Properties\<close>

subsection \<open>The loops\<close>

lemma free_slot_scan_step:
  "i < RTAPI_MAX_RINGS cfg \<Longrightarrow> magic (ra ! i) = RING_MAGIC cfg \<Longrightarrow>
   free_slot_scan cfg ra i = free_slot_scan cfg ra (Suc i)"
  by (subst free_slot_scan.simps) simp

lemma free_slot_scan_stop:
  "i < RTAPI_MAX_RINGS cfg \<Longrightarrow> magic (ra ! i) \<noteq> RING_MAGIC cfg \<Longrightarrow>
   free_slot_scan cfg ra i = i"
  by (subst free_slot_scan.simps) simp

lemma free_slot_scan_end:
  "\<not> i < RTAPI_MAX_RINGS cfg \<Longrightarrow> free_slot_scan cfg ra i = i"
  by (subst free_slot_scan.simps) simp

lemma free_slot_scan_cases:
  "free_slot_scan cfg ra i = i \<or>
   (i < RTAPI_MAX_RINGS cfg \<and> magic (ra ! i) = RING_MAGIC cfg \<and>
    free_slot_scan cfg ra i = free_slot_scan cfg ra (Suc i))"
  using free_slot_scan_step free_slot_scan_stop free_slot_scan_end by blast

lemma free_slot_scan_le:
  "i \<le> RTAPI_MAX_RINGS cfg \<Longrightarrow> free_slot_scan cfg ra i \<le> RTAPI_MAX_RINGS cfg"
proof (induction cfg ra i rule: free_slot_scan.induct)
  case (1 cfg ra i)
  then show ?case
    using free_slot_scan_cases [of cfg ra i] by auto
qed

lemma free_slot_scan_ge: "i \<le> free_slot_scan cfg ra i"
proof (induction cfg ra i rule: free_slot_scan.induct)
  case (1 cfg ra i)
  then show ?case
    using free_slot_scan_cases [of cfg ra i] by (auto simp: Suc_leD)
qed

lemma free_slot_scan_free:
  "free_slot_scan cfg ra i < RTAPI_MAX_RINGS cfg \<Longrightarrow>
   magic (ra ! free_slot_scan cfg ra i) \<noteq> RING_MAGIC cfg"
proof (induction cfg ra i rule: free_slot_scan.induct)
  case (1 cfg ra i)
  show ?case
  proof (cases "i < RTAPI_MAX_RINGS cfg \<and> magic (ra ! i) = RING_MAGIC cfg")
    case True
    then show ?thesis
      using "1.IH" "1.prems" free_slot_scan_step [of i cfg ra] by simp
  next
    case False
    then have "free_slot_scan cfg ra i = i"
      using free_slot_scan_stop free_slot_scan_end by blast
    then show ?thesis using False "1.prems" by simp
  qed
qed

lemma free_slot_scan_below:
  "i \<le> j \<Longrightarrow> j < free_slot_scan cfg ra i \<Longrightarrow> magic (ra ! j) = RING_MAGIC cfg"
proof (induction cfg ra i rule: free_slot_scan.induct)
  case (1 cfg ra i)
  have scan: "i < RTAPI_MAX_RINGS cfg \<and> magic (ra ! i) = RING_MAGIC cfg
      \<and> free_slot_scan cfg ra i = free_slot_scan cfg ra (Suc i)"
    using "1.prems" free_slot_scan_cases [of cfg ra i] by auto
  show ?case
  proof (cases "j = i")
    case True
    then show ?thesis using scan by simp
  next
    case False
    then have "Suc i \<le> j" using "1.prems"(1) by simp
    moreover have "j < free_slot_scan cfg ra (Suc i)" using "1.prems"(2) scan by simp
    ultimately show ?thesis using "1.IH" scan by simp
  qed
qed

lemma count_bits_card:
  "count_bits cfg bm i cnt =
     cnt + int (card {j. i \<le> j \<and> j < RTAPI_MAX_RINGS cfg \<and> int j \<in> bm})"
proof (induction cfg bm i cnt rule: count_bits.induct)
  case (1 cfg bm i cnt)
  show ?case
  proof (cases "i < RTAPI_MAX_RINGS cfg")
    case False
    then have "{j. i \<le> j \<and> j < RTAPI_MAX_RINGS cfg \<and> int j \<in> bm} = {}" by auto
    then show ?thesis using False by (subst count_bits.simps) simp
  next
    case True
    let ?A = "{j. Suc i \<le> j \<and> j < RTAPI_MAX_RINGS cfg \<and> int j \<in> bm}"
    have fin: "finite ?A" by simp
    have split: "{j. i \<le> j \<and> j < RTAPI_MAX_RINGS cfg \<and> int j \<in> bm} =
                 (if int i \<in> bm then insert i ?A else ?A)"
      using True by (auto simp: Suc_le_eq le_less)
    have "i \<notin> ?A" by simp
    then show ?thesis
      using True "1.IH" fin
      by (subst count_bits.simps) (simp add: split test_bit_bm_def)
  qed
qed

subsection \<open>Fields of the state after a step\<close>

lemma ring_array_print_msg [simp]: "ring_array (rtapi_print_msg m s) = ring_array s"
  and ring_addr_array_print_msg [simp]: "ring_addr_array (rtapi_print_msg m s) = ring_addr_array s"
  and ring_mutex_print_msg [simp]: "ring_mutex (rtapi_print_msg m s) = ring_mutex s"
  and mutex_print_msg [simp]: "mutex (rtapi_print_msg m s) = mutex s"
  and shm_print_msg [simp]: "shm (rtapi_print_msg m s) = shm s"
  and msgs_print_msg [simp]: "msgs (rtapi_print_msg m s) = msgs s @ [m]"
  by (simp_all add: rtapi_print_msg_def)

lemma ring_array_upd_slot [simp]:
    "ring_array (upd_slot i f s) = (ring_array s)[i := f (ring_array s ! i)]"
  and ring_addr_array_upd_slot [simp]: "ring_addr_array (upd_slot i f s) = ring_addr_array s"
  and ring_mutex_upd_slot [simp]: "ring_mutex (upd_slot i f s) = ring_mutex s"
  and mutex_upd_slot [simp]: "mutex (upd_slot i f s) = mutex s"
  and shm_upd_slot [simp]: "shm (upd_slot i f s) = shm s"
  and msgs_upd_slot [simp]: "msgs (upd_slot i f s) = msgs s"
  by (simp_all add: upd_slot_def)

lemma ring_array_autorelease [simp]: "ring_array (ring_autorelease_mutex s) = ring_array s"
  and ring_addr_array_autorelease [simp]:
    "ring_addr_array (ring_autorelease_mutex s) = ring_addr_array s"
  and ring_mutex_autorelease [simp]: "ring_mutex (ring_autorelease_mutex s) = False"
  and mutex_autorelease [simp]: "mutex (ring_autorelease_mutex s) = mutex s"
  and shm_autorelease [simp]: "shm (ring_autorelease_mutex s) = shm s"
  and msgs_autorelease [simp]:
    "msgs (ring_autorelease_mutex s) =
       (if ring_mutex s then msgs s else msgs s @ [mutex_not_set])"
  by (simp_all add: ring_autorelease_mutex_def)

subsection \<open>\_rtapi\_ring\_new\<close>

lemma new_slot_le: "new_slot cfg s \<le> RTAPI_MAX_RINGS cfg"
  by (simp add: new_slot_def free_slot_scan_le)

lemma new_slot_free:
  "new_slot cfg s \<noteq> RTAPI_MAX_RINGS cfg \<Longrightarrow>
   magic (ring_array s ! new_slot cfg s) \<noteq> RING_MAGIC cfg"
  using free_slot_scan_free [of cfg "ring_array s" 0] new_slot_le [of cfg s]
  by (simp add: new_slot_def)

lemma new_slot_least:
  "j < new_slot cfg s \<Longrightarrow> magic (ring_array s ! j) = RING_MAGIC cfg"
  using free_slot_scan_below [of 0 j cfg "ring_array s"] by (simp add: new_slot_def)

lemma ring_new_body_fst:
  assumes "length (ring_array s) = RTAPI_MAX_RINGS cfg"
  shows "fst (ring_new_body cfg be rsize sp_size module_id flags s) =
           (if new_fails cfg be rsize sp_size module_id flags s then - ENOMEM
            else int (new_slot cfg s))"
proof -
  have "new_slot cfg s \<noteq> RTAPI_MAX_RINGS cfg \<Longrightarrow> new_slot cfg s < length (ring_array s)"
    using new_slot_le [of cfg s] assms by simp
  then show ?thesis
    by (simp add: ring_new_body_def ring_new_commit_def new_fails_def new_mapping_def
        new_segment_def new_slot_def [symmetric] Let_def split: prod.splits)
qed

lemma ring_new_body_ring_array:
  assumes "length (ring_array s) = RTAPI_MAX_RINGS cfg"
  shows "ring_array (snd (ring_new_body cfg be rsize sp_size module_id flags s)) =
           (if new_slot cfg s = RTAPI_MAX_RINGS cfg then ring_array s
            else if new_fails cfg be rsize sp_size module_id flags s
            then (ring_array s)[new_slot cfg s := (ring_array s ! new_slot cfg s)
                   \<lparr>key := RTAPI_RING_SHM_KEY cfg + int (new_slot cfg s), owner := module_id,
                    shmem_id := fst (new_segment cfg be rsize sp_size module_id flags s)\<rparr>]
            else (ring_array s)[new_slot cfg s := (ring_array s ! new_slot cfg s)
                   \<lparr>key := RTAPI_RING_SHM_KEY cfg + int (new_slot cfg s), owner := module_id,
                    shmem_id := fst (new_segment cfg be rsize sp_size module_id flags s),
                    bitmap := set_bit_bm module_id (bitmap (ring_array s ! new_slot cfg s)),
                    magic := RING_MAGIC cfg\<rparr>])"
proof -
  have "new_slot cfg s \<noteq> RTAPI_MAX_RINGS cfg \<Longrightarrow> new_slot cfg s < length (ring_array s)"
    using new_slot_le [of cfg s] assms by simp
  then show ?thesis
    by (simp add: ring_new_body_def ring_new_commit_def new_fails_def new_mapping_def
        new_segment_def new_slot_def [symmetric] Let_def split: prod.splits)
qed

subsection \<open>Evaluation at sample values\<close>

lemma replicate_numeral: "replicate (numeral k) x = x # replicate (pred_numeral k) x"
  by (simp add: numeral_eq_Suc)

lemma list_update_numeral: "(x # xs)[numeral k := y] = x # xs[pred_numeral k := y]"
  by (simp add: numeral_eq_Suc)

lemmas sample_defs = user_cfg_def kernel_cfg_def test_backend_def free_slot_def empty_table_def
  ENOMEM_def EINVAL_def NULL_def wf_state_def replicate_numeral list_update_numeral

lemmas op_defs = rtapi_ring_new_def ring_new_body_def ring_new_commit_def
  rtapi_mutex_get_ring_def rtapi_mutex_get_rtapi_def ring_autorelease_mutex_def
  rtapi_autorelease_mutex_def upd_slot_def rtapi_print_msg_def set_bit_bm_def clear_bit_bm_def
  test_bit_bm_def rtapi_ring_attach_def ring_attach_body_def attach_committed_def
  attach_uncommitted_def attach_record_def rtapi_ring_refcount_def ring_refcount_body_def
  rtapi_ring_detach_def ring_detach_body_def detach_release_def free_slot_scan.simps
  count_bits.simps Let_def

lemma new_calls_ring_mutex [simp]:
  "new_slot cfg (s\<lparr>ring_mutex := v\<rparr>) = new_slot cfg s"
  "new_segment cfg be rsize sp_size module_id flags (s\<lparr>ring_mutex := v\<rparr>) =
     new_segment cfg be rsize sp_size module_id flags s"
  "new_mapping cfg be rsize sp_size module_id flags (s\<lparr>ring_mutex := v\<rparr>) =
     new_mapping cfg be rsize sp_size module_id flags s"
  "new_fails cfg be rsize sp_size module_id flags (s\<lparr>ring_mutex := v\<rparr>) =
     new_fails cfg be rsize sp_size module_id flags s"
  by (simp_all add: new_slot_def new_segment_def new_mapping_def new_fails_def)

lemma rtapi_ring_new_held:
  "ring_mutex s \<Longrightarrow> rtapi_ring_new cfg be rsize sp_size module_id flags s = None"
  by (simp add: rtapi_ring_new_def rtapi_mutex_get_ring_def)

lemma rtapi_ring_new_free:
  "\<not> ring_mutex s \<Longrightarrow>
   rtapi_ring_new cfg be rsize sp_size module_id flags s =
     Some (fst (ring_new_body cfg be rsize sp_size module_id flags (s\<lparr>ring_mutex := True\<rparr>)),
           ring_autorelease_mutex
             (snd (ring_new_body cfg be rsize sp_size module_id flags (s\<lparr>ring_mutex := True\<rparr>))))"
  by (simp add: rtapi_ring_new_def rtapi_mutex_get_ring_def split: prod.splits)

lemma rtapi_ring_new_result:
  assumes wf: "wf_state cfg s"
    and new: "rtapi_ring_new cfg be rsize sp_size module_id flags s = Some (r, s')"
  shows "r = (if new_fails cfg be rsize sp_size module_id flags s then - ENOMEM
              else int (new_slot cfg s))"
    and "ring_array s' =
           (if new_slot cfg s = RTAPI_MAX_RINGS cfg then ring_array s
            else if new_fails cfg be rsize sp_size module_id flags s
            then (ring_array s)[new_slot cfg s := (ring_array s ! new_slot cfg s)
                   \<lparr>key := RTAPI_RING_SHM_KEY cfg + int (new_slot cfg s), owner := module_id,
                    shmem_id := fst (new_segment cfg be rsize sp_size module_id flags s)\<rparr>]
            else (ring_array s)[new_slot cfg s := (ring_array s ! new_slot cfg s)
                   \<lparr>key := RTAPI_RING_SHM_KEY cfg + int (new_slot cfg s), owner := module_id,
                    shmem_id := fst (new_segment cfg be rsize sp_size module_id flags s),
                    bitmap := set_bit_bm module_id (bitmap (ring_array s ! new_slot cfg s)),
                    magic := RING_MAGIC cfg\<rparr>])"
proof -
  have free: "\<not> ring_mutex s"
    using new rtapi_ring_new_held [of s cfg be rsize sp_size module_id flags] by auto
  have len: "length (ring_array (s\<lparr>ring_mutex := True\<rparr>)) = RTAPI_MAX_RINGS cfg"
    using wf by (simp add: wf_state_def)
  from new free
  have r: "r = fst (ring_new_body cfg be rsize sp_size module_id flags (s\<lparr>ring_mutex := True\<rparr>))"
    and s': "s' = ring_autorelease_mutex
               (snd (ring_new_body cfg be rsize sp_size module_id flags (s\<lparr>ring_mutex := True\<rparr>)))"
    by (simp_all add: rtapi_ring_new_free)
  show "r = (if new_fails cfg be rsize sp_size module_id flags s then - ENOMEM
              else int (new_slot cfg s))"
    using ring_new_body_fst [OF len, of be rsize sp_size module_id flags] r by simp
  show "ring_array s' =
           (if new_slot cfg s = RTAPI_MAX_RINGS cfg then ring_array s
            else if new_fails cfg be rsize sp_size module_id flags s
            then (ring_array s)[new_slot cfg s := (ring_array s ! new_slot cfg s)
                   \<lparr>key := RTAPI_RING_SHM_KEY cfg + int (new_slot cfg s), owner := module_id,
                    shmem_id := fst (new_segment cfg be rsize sp_size module_id flags s)\<rparr>]
            else (ring_array s)[new_slot cfg s := (ring_array s ! new_slot cfg s)
                   \<lparr>key := RTAPI_RING_SHM_KEY cfg + int (new_slot cfg s), owner := module_id,
                    shmem_id := fst (new_segment cfg be rsize sp_size module_id flags s),
                    bitmap := set_bit_bm module_id (bitmap (ring_array s ! new_slot cfg s)),
                    magic := RING_MAGIC cfg\<rparr>])"
    using ring_new_body_ring_array [OF len, of be rsize sp_size module_id flags] s' by simp
qed





lemma rtapi_ring_new_negative:
  assumes "wf_state cfg s"
    and "rtapi_ring_new cfg be rsize sp_size module_id flags s = Some (r, s')"
  shows "(r < 0) = new_fails cfg be rsize sp_size module_id flags s"
  using rtapi_ring_new_result(1) [OF assms] by (simp add: ENOMEM_def)

text \<open>
  C3 (as stated, refuted).  The backend refuses the segment, so the call fails with
  \<^verbatim>\<open>-ENOMEM\<close>; slot 0 of the table has a new key, owner and segment id all the same,
  because lines 76, 77 and 80 store them before the outcome of the backend is known.
\<close>

theorem failed_create_untouched_counterexample:
  "rtapi_ring_new (user_cfg 2) (test_backend False True True True) 4096 0 7 0
     (empty_table (user_cfg 2) 0) =
   Some (- 12,
     \<lparr>ring_array =
        [\<lparr>magic = 0, key = 4280320, owner = 7, shmem_id = - 22, bitmap = {}, count = 0\<rparr>,
         \<lparr>magic = 0, key = 0, owner = 0, shmem_id = 0, bitmap = {}, count = 0\<rparr>],
      ring_addr_array = [0, 0, 0], ring_mutex = False, mutex = False, shm = 0,
      msgs = [msg_new_shmem_new]\<rparr>) \<and>
   ring_array (empty_table (user_cfg 2) (0::nat)) =
     [\<lparr>magic = 0, key = 0, owner = 0, shmem_id = 0, bitmap = {}, count = 0\<rparr>,
      \<lparr>magic = 0, key = 0, owner = 0, shmem_id = 0, bitmap = {}, count = 0\<rparr>]"
  by (simp add: sample_defs op_defs)

text \<open>
  C3 (amended).  A failed \<^verbatim>\<open>_rtapi_ring_new\<close> changes no validity tag, no bitmap and no
  count, and no field of any slot but the first free one.  When it fails for want of a free
  slot the table is what it was; when it fails in the backend, key, owner and segment id
  of the first free slot have been overwritten, and nothing else.
\<close>

theorem failed_create_frame:
  assumes "wf_state cfg s"
    and "rtapi_ring_new cfg be rsize sp_size module_id flags s = Some (r, s')"
    and "r < 0"
  shows "(new_slot cfg s = RTAPI_MAX_RINGS cfg \<longrightarrow> ring_array s' = ring_array s) \<and>
         (new_slot cfg s < RTAPI_MAX_RINGS cfg \<longrightarrow>
            ring_array s' = (ring_array s)[new_slot cfg s := (ring_array s ! new_slot cfg s)
               \<lparr>key := RTAPI_RING_SHM_KEY cfg + int (new_slot cfg s), owner := module_id,
                shmem_id := fst (new_segment cfg be rsize sp_size module_id flags s)\<rparr>]) \<and>
         (\<forall>j < RTAPI_MAX_RINGS cfg.
            magic (ring_array s' ! j) = magic (ring_array s ! j) \<and>
            bitmap (ring_array s' ! j) = bitmap (ring_array s ! j) \<and>
            count (ring_array s' ! j) = count (ring_array s ! j) \<and>
            (j \<noteq> new_slot cfg s \<longrightarrow> ring_array s' ! j = ring_array s ! j))"
proof -
  have fails: "new_fails cfg be rsize sp_size module_id flags s"
    using rtapi_ring_new_negative [OF assms(1,2)] assms(3) by simp
  have len: "length (ring_array s) = RTAPI_MAX_RINGS cfg"
    using assms(1) by (simp add: wf_state_def)
  have arr: "ring_array s' =
           (if new_slot cfg s = RTAPI_MAX_RINGS cfg then ring_array s
            else (ring_array s)[new_slot cfg s := (ring_array s ! new_slot cfg s)
                   \<lparr>key := RTAPI_RING_SHM_KEY cfg + int (new_slot cfg s), owner := module_id,
                    shmem_id := fst (new_segment cfg be rsize sp_size module_id flags s)\<rparr>])"
    using rtapi_ring_new_result(2) [OF assms(1,2)] fails by simp
  have slots: "magic (ring_array s' ! j) = magic (ring_array s ! j) \<and>
            bitmap (ring_array s' ! j) = bitmap (ring_array s ! j) \<and>
            count (ring_array s' ! j) = count (ring_array s ! j) \<and>
            (j \<noteq> new_slot cfg s \<longrightarrow> ring_array s' ! j = ring_array s ! j)"
    if "j < RTAPI_MAX_RINGS cfg" for j
    using that len arr by (cases "j = new_slot cfg s") auto
  show ?thesis
    using arr slots by simp
qed

theorem failed_create_frame_witness:
  "wf_state (user_cfg 2) (empty_table (user_cfg 2) (0::nat)) \<and>
   rtapi_ring_new (user_cfg 2) (test_backend False True True True) 4096 0 7 0
     (empty_table (user_cfg 2) 0) =
   Some (- 12,
     \<lparr>ring_array =
        [\<lparr>magic = 0, key = 4280320, owner = 7, shmem_id = - 22, bitmap = {}, count = 0\<rparr>,
         \<lparr>magic = 0, key = 0, owner = 0, shmem_id = 0, bitmap = {}, count = 0\<rparr>],
      ring_addr_array = [0, 0, 0], ring_mutex = False, mutex = False, shm = 0,
      msgs = [msg_new_shmem_new]\<rparr>) \<and>
   new_slot (user_cfg 2) (empty_table (user_cfg 2) (0::nat)) = 0 \<and>
   [\<lparr>magic = 0, key = 4280320, owner = 7, shmem_id = - 22, bitmap = {}, count = 0\<rparr>,
    \<lparr>magic = 0, key = 0, owner = 0, shmem_id = 0, bitmap = {}, count = 0\<rparr>] =
   (ring_array (empty_table (user_cfg 2) (0::nat)))[0 :=
      (ring_array (empty_table (user_cfg 2) (0::nat)) ! 0)
        \<lparr>key := 4280320, owner := 7, shmem_id := - 22\<rparr>]"
proof -
  have wf: "wf_state (user_cfg 2) (empty_table (user_cfg 2) (0::nat))"
    by (simp add: sample_defs)
  have c: "rtapi_ring_new (user_cfg 2) (test_backend False True True True) 4096 0 7 0
     (empty_table (user_cfg 2) 0) =
   Some (- 12,
     \<lparr>ring_array =
        [\<lparr>magic = 0, key = 4280320, owner = 7, shmem_id = - 22, bitmap = {}, count = 0\<rparr>,
         \<lparr>magic = 0, key = 0, owner = 0, shmem_id = 0, bitmap = {}, count = 0\<rparr>],
      ring_addr_array = [0, 0, 0], ring_mutex = False, mutex = False, shm = 0,
      msgs = [msg_new_shmem_new]\<rparr>)"
    by (simp add: sample_defs op_defs)
  have n: "new_slot (user_cfg 2) (empty_table (user_cfg 2) (0::nat)) = 0"
    by (simp add: new_slot_def sample_defs op_defs)
  have sid: "fst (new_segment (user_cfg 2) (test_backend False True True True) 4096 0 7 0
     (empty_table (user_cfg 2) 0)) = - 22"
    by (simp add: new_segment_def sample_defs)
  have k: "RTAPI_RING_SHM_KEY (user_cfg 2) = 4280320" "RTAPI_MAX_RINGS (user_cfg 2) = 2"
    by (simp_all add: user_cfg_def)
  show ?thesis
    using failed_create_frame [OF wf c] wf c n
    by (simp add: n sid k)
qed

lemma free_slot_scan_first:
  assumes "i \<le> j" and "j < RTAPI_MAX_RINGS cfg" and "magic (ra ! j) \<noteq> RING_MAGIC cfg"
  shows "free_slot_scan cfg ra i \<le> j"
proof (rule ccontr)
  assume "\<not> free_slot_scan cfg ra i \<le> j"
  then have "j < free_slot_scan cfg ra i" by simp
  then show False
    using free_slot_scan_below [OF assms(1)] assms(3) by blast
qed

lemma new_slot_committed_upto:
  assumes "committed_upto cfg s k" and "k \<le> RTAPI_MAX_RINGS cfg"
  shows "new_slot cfg s = k"
proof -
  have ge: "k \<le> new_slot cfg s"
  proof (rule ccontr)
    assume "\<not> k \<le> new_slot cfg s"
    then have lt: "new_slot cfg s < k" by simp
    then have "new_slot cfg s \<noteq> RTAPI_MAX_RINGS cfg" using assms(2) by simp
    moreover have "magic (ring_array s ! new_slot cfg s) = RING_MAGIC cfg"
      using assms lt by (simp add: committed_upto_def)
    ultimately show False using new_slot_free [of cfg s] by simp
  qed
  show ?thesis
  proof (cases "k < RTAPI_MAX_RINGS cfg")
    case True
    then have "magic (ring_array s ! k) \<noteq> RING_MAGIC cfg"
      using assms(1) by (simp add: committed_upto_def)
    then have "new_slot cfg s \<le> k"
      using free_slot_scan_first [of 0 k cfg "ring_array s"] True by (simp add: new_slot_def)
    then show ?thesis using ge by simp
  next
    case False
    then show ?thesis using ge assms(2) new_slot_le [of cfg s] by simp
  qed
qed

lemma rtapi_ring_new_returns:
  "\<not> ring_mutex s \<Longrightarrow>
   \<exists>r s'. rtapi_ring_new cfg be rsize sp_size module_id flags s = Some (r, s')"
  by (simp add: rtapi_ring_new_free)

lemma rtapi_ring_new_SomeD:
  assumes "rtapi_ring_new cfg be rsize sp_size module_id flags s = Some (r, s')"
  shows "\<not> ring_mutex s"
    and "r = fst (ring_new_body cfg be rsize sp_size module_id flags (s\<lparr>ring_mutex := True\<rparr>))"
    and "s' = ring_autorelease_mutex
           (snd (ring_new_body cfg be rsize sp_size module_id flags (s\<lparr>ring_mutex := True\<rparr>)))"
proof -
  show free: "\<not> ring_mutex s"
    using assms rtapi_ring_new_held [of s cfg be rsize sp_size module_id flags] by auto
  show "r = fst (ring_new_body cfg be rsize sp_size module_id flags (s\<lparr>ring_mutex := True\<rparr>))"
    using assms rtapi_ring_new_free [OF free, of cfg be rsize sp_size module_id flags] by simp
  show "s' = ring_autorelease_mutex
           (snd (ring_new_body cfg be rsize sp_size module_id flags (s\<lparr>ring_mutex := True\<rparr>)))"
    using assms rtapi_ring_new_free [OF free, of cfg be rsize sp_size module_id flags] by simp
qed

lemma ring_new_body_frame:
  "mutex (snd (ring_new_body cfg be rsize sp_size module_id flags t)) = mutex t"
  "ring_mutex (snd (ring_new_body cfg be rsize sp_size module_id flags t)) = ring_mutex t"
  "length (ring_addr_array (snd (ring_new_body cfg be rsize sp_size module_id flags t))) =
     length (ring_addr_array t)"
  by (simp_all add: ring_new_body_def ring_new_commit_def Let_def split: prod.splits)

lemma rtapi_ring_new_locks:
  assumes "rtapi_ring_new cfg be rsize sp_size module_id flags s = Some (r, s')"
  shows "\<not> ring_mutex s'" and "mutex s' = mutex s"
  by (simp_all add: rtapi_ring_new_SomeD(3) [OF assms] ring_new_body_frame)

lemma rtapi_ring_new_wf:
  assumes "wf_state cfg s"
    and "rtapi_ring_new cfg be rsize sp_size module_id flags s = Some (r, s')"
  shows "wf_state cfg s'"
proof -
  have "length (ring_array s') = length (ring_array s)"
    using rtapi_ring_new_result(2) [OF assms] by simp
  moreover have "length (ring_addr_array s') = length (ring_addr_array s)"
    by (simp add: rtapi_ring_new_SomeD(3) [OF assms(2)] ring_new_body_frame)
  ultimately show ?thesis using assms(1) by (simp add: wf_state_def)
qed

lemma rtapi_ring_new_committed_upto:
  assumes wf: "wf_state cfg s"
    and new: "rtapi_ring_new cfg be rsize sp_size module_id flags s = Some (r, s')"
    and upto: "committed_upto cfg s k" and k: "k < RTAPI_MAX_RINGS cfg" and ok: "0 \<le> r"
  shows "r = int k" and "committed_upto cfg s' (Suc k)"
proof -
  have slot: "new_slot cfg s = k"
    using new_slot_committed_upto [OF upto] k by simp
  have nf: "\<not> new_fails cfg be rsize sp_size module_id flags s"
    using rtapi_ring_new_negative [OF wf new] ok by simp
  show "r = int k"
    using rtapi_ring_new_result(1) [OF wf new] nf slot by simp
  have len: "length (ring_array s) = RTAPI_MAX_RINGS cfg"
    using wf by (simp add: wf_state_def)
  have arr: "ring_array s' = (ring_array s)[k := (ring_array s ! k)
                   \<lparr>key := RTAPI_RING_SHM_KEY cfg + int k, owner := module_id,
                    shmem_id := fst (new_segment cfg be rsize sp_size module_id flags s),
                    bitmap := set_bit_bm module_id (bitmap (ring_array s ! k)),
                    magic := RING_MAGIC cfg\<rparr>]"
    using rtapi_ring_new_result(2) [OF wf new] nf slot k by simp
  show "committed_upto cfg s' (Suc k)"
    unfolding committed_upto_def
  proof (intro allI impI)
    fix j assume j: "j < RTAPI_MAX_RINGS cfg"
    show "(magic (ring_array s' ! j) = RING_MAGIC cfg) = (j < Suc k)"
    proof (cases "j = k")
      case True
      then show ?thesis using arr len k by simp
    next
      case False
      then have "ring_array s' ! j = ring_array s ! j" using arr by simp
      then show ?thesis using upto j False by (auto simp: committed_upto_def)
    qed
  qed
qed

lemma ring_new_seq_handles:
  assumes "wf_state cfg s" and "\<not> ring_mutex s" and "committed_upto cfg s k"
    and "k + length calls \<le> RTAPI_MAX_RINGS cfg"
  shows "\<exists>rs s'. ring_new_seq cfg be calls s = Some (rs, s') \<and> wf_state cfg s' \<and>
            \<not> ring_mutex s' \<and>
            ((\<forall>r \<in> set rs. 0 \<le> r) \<longrightarrow>
               rs = map int [k ..< k + length calls] \<and>
               committed_upto cfg s' (k + length calls))"
  using assms
proof (induction calls arbitrary: s k)
  case Nil
  then show ?case by simp
next
  case (Cons c calls)
  obtain rsize sp_size module_id flags where c: "c = (rsize, sp_size, module_id, flags)"
    by (cases c) auto
  obtain r s1 where new: "rtapi_ring_new cfg be rsize sp_size module_id flags s = Some (r, s1)"
    using rtapi_ring_new_returns [OF Cons.prems(2)] by blast
  have wf1: "wf_state cfg s1" using rtapi_ring_new_wf [OF Cons.prems(1) new] .
  have free1: "\<not> ring_mutex s1" using rtapi_ring_new_locks(1) [OF new] .
  have k: "k < RTAPI_MAX_RINGS cfg" using Cons.prems(4) by simp
  show ?case
  proof (cases "0 \<le> r")
    case True
    have r: "r = int k" and upto1: "committed_upto cfg s1 (Suc k)"
      using rtapi_ring_new_committed_upto [OF Cons.prems(1) new Cons.prems(3) k True] by simp_all
    have "Suc k + length calls \<le> RTAPI_MAX_RINGS cfg" using Cons.prems(4) by simp
    from Cons.IH [OF wf1 free1 upto1 this]
    obtain rs s' where seq: "ring_new_seq cfg be calls s1 = Some (rs, s')"
      and wf': "wf_state cfg s'" and free': "\<not> ring_mutex s'"
      and rest: "(\<forall>r \<in> set rs. 0 \<le> r) \<longrightarrow>
               rs = map int [Suc k ..< Suc k + length calls] \<and>
               committed_upto cfg s' (Suc k + length calls)"
      by blast
    have "ring_new_seq cfg be (c # calls) s = Some (r # rs, s')"
      using c new seq by simp
    moreover have upt: "[k ..< k + length (c # calls)] = k # [Suc k ..< Suc k + length calls]"
      using upt_conv_Cons [of k "k + length (c # calls)"] by simp
    ultimately have step: "ring_new_seq cfg be (c # calls) s = Some (r # rs, s')" by simp
    have all: "(\<forall>x \<in> set (r # rs). 0 \<le> x) \<longrightarrow>
               r # rs = map int [k ..< k + length (c # calls)] \<and>
               committed_upto cfg s' (k + length (c # calls))"
      using rest r unfolding upt by simp
    show ?thesis
      by (intro exI [of _ "r # rs"] exI [of _ s'] conjI step wf' free' all)
  next
    case False
    have "\<exists>rs s'. ring_new_seq cfg be calls s1 = Some (rs, s') \<and> wf_state cfg s' \<and>
            \<not> ring_mutex s'"
      using wf1 free1
    proof (induction calls arbitrary: s1)
      case Nil
      then show ?case by simp
    next
      case (Cons d ds)
      obtain a b m f where d: "d = (a, b, m, f)" by (cases d) auto
      obtain r2 s2 where n2: "rtapi_ring_new cfg be a b m f s1 = Some (r2, s2)"
        using rtapi_ring_new_returns [OF Cons.prems(2)] by blast
      from Cons.IH [OF rtapi_ring_new_wf [OF Cons.prems(1) n2] rtapi_ring_new_locks(1) [OF n2]]
      obtain rs s' where "ring_new_seq cfg be ds s2 = Some (rs, s')" "wf_state cfg s'"
        "\<not> ring_mutex s'" by blast
      then show ?case using d n2 by simp
    qed
    then obtain rs s' where seq: "ring_new_seq cfg be calls s1 = Some (rs, s')"
      and wf': "wf_state cfg s'" and free': "\<not> ring_mutex s'" by blast
    have step: "ring_new_seq cfg be (c # calls) s = Some (r # rs, s')"
      using c new seq by simp
    have all: "(\<forall>x \<in> set (r # rs). 0 \<le> x) \<longrightarrow>
               r # rs = map int [k ..< k + length (c # calls)] \<and>
               committed_upto cfg s' (k + length (c # calls))"
      using False by simp
    show ?thesis
      by (intro exI [of _ "r # rs"] exI [of _ s'] conjI step wf' free' all)
  qed
qed

lemma rtapi_ring_new_exhausted:
  assumes "wf_state cfg s" and "\<not> ring_mutex s"
    and "committed_upto cfg s (RTAPI_MAX_RINGS cfg)"
  shows "rtapi_ring_new cfg be rsize sp_size module_id flags s =
           Some (- ENOMEM, rtapi_print_msg msg_new_exceeded s)"
proof -
  have "new_slot cfg s = RTAPI_MAX_RINGS cfg"
    using new_slot_committed_upto [OF assms(3)] by simp
  then have "free_slot_scan cfg (ring_array s) 0 = RTAPI_MAX_RINGS cfg"
    by (simp add: new_slot_def)
  then show ?thesis
    using assms(2)
    by (simp add: rtapi_ring_new_def rtapi_mutex_get_ring_def ring_new_body_def
        ring_autorelease_mutex_def rtapi_print_msg_def)
qed

lemma new_slot_upto_free:
  assumes "j < RTAPI_MAX_RINGS cfg" and "magic (ring_array s ! j) \<noteq> RING_MAGIC cfg"
  shows "new_slot cfg s \<le> j"
  using free_slot_scan_first [of 0 j cfg "ring_array s"] assms by (simp add: new_slot_def)

lemma new_slot_lowest_free:
  assumes "i < RTAPI_MAX_RINGS cfg" and "magic (ring_array s ! i) \<noteq> RING_MAGIC cfg"
    and "\<forall>j < i. magic (ring_array s ! j) = RING_MAGIC cfg"
  shows "new_slot cfg s = i"
proof (rule ccontr)
  assume neq: "new_slot cfg s \<noteq> i"
  have "new_slot cfg s \<le> i" using new_slot_upto_free [OF assms(1,2)] .
  then have lt: "new_slot cfg s < i" using neq by simp
  then have "magic (ring_array s ! new_slot cfg s) = RING_MAGIC cfg"
    using assms(3) by simp
  moreover have "new_slot cfg s \<noteq> RTAPI_MAX_RINGS cfg" using lt assms(1) by simp
  ultimately show False using new_slot_free [of cfg s] by simp
qed

lemma rtapi_ring_new_lowest_free:
  assumes wf: "wf_state cfg s" and free: "\<not> ring_mutex s"
    and i: "i < RTAPI_MAX_RINGS cfg" and tag: "magic (ring_array s ! i) \<noteq> RING_MAGIC cfg"
    and low: "\<forall>j < i. magic (ring_array s ! j) = RING_MAGIC cfg"
    and seg: "0 \<le> fst (shmem_new be (RTAPI_RING_SHM_KEY cfg + int i) module_id
                      (ring_memsize be flags rsize sp_size) (shm s))"
    and map: "fst (fst (shmem_getptr be
                 (fst (shmem_new be (RTAPI_RING_SHM_KEY cfg + int i) module_id
                         (ring_memsize be flags rsize sp_size) (shm s)))
                 (snd (shmem_new be (RTAPI_RING_SHM_KEY cfg + int i) module_id
                         (ring_memsize be flags rsize sp_size) (shm s))))) = 0"
  shows "\<exists>s'. rtapi_ring_new cfg be rsize sp_size module_id flags s = Some (int i, s') \<and>
           wf_state cfg s' \<and> \<not> ring_mutex s' \<and>
           magic (ring_array s' ! i) = RING_MAGIC cfg \<and>
           module_id \<in> bitmap (ring_array s' ! i) \<and>
           (\<forall>j. j \<noteq> i \<longrightarrow> ring_array s' ! j = ring_array s ! j)"
proof -
  have slot: "new_slot cfg s = i" using new_slot_lowest_free [OF i tag low] .
  have nf: "\<not> new_fails cfg be rsize sp_size module_id flags s"
    using slot i seg map by (simp add: new_fails_def new_mapping_def new_segment_def)
  obtain r s' where new: "rtapi_ring_new cfg be rsize sp_size module_id flags s = Some (r, s')"
    using rtapi_ring_new_returns [OF free] by blast
  have r: "r = int i"
    using rtapi_ring_new_result(1) [OF wf new] nf slot by simp
  have len: "i < length (ring_array s)" using wf i by (simp add: wf_state_def)
  have arr: "ring_array s' = (ring_array s)[i := (ring_array s ! i)
                   \<lparr>key := RTAPI_RING_SHM_KEY cfg + int i, owner := module_id,
                    shmem_id := fst (new_segment cfg be rsize sp_size module_id flags s),
                    bitmap := set_bit_bm module_id (bitmap (ring_array s ! i)),
                    magic := RING_MAGIC cfg\<rparr>]"
    using rtapi_ring_new_result(2) [OF wf new] nf slot i by simp
  have "magic (ring_array s' ! i) = RING_MAGIC cfg"
    and "module_id \<in> bitmap (ring_array s' ! i)"
    and "\<forall>j. j \<noteq> i \<longrightarrow> ring_array s' ! j = ring_array s ! j"
    using arr len by (simp_all add: set_bit_bm_def)
  then show ?thesis
    using new r rtapi_ring_new_wf [OF wf new] rtapi_ring_new_locks(1) [OF new] by simp
qed

lemma rtapi_ring_new_next:
  assumes ok: "backend_succeeds be" and wf: "wf_state cfg s" and free: "\<not> ring_mutex s"
    and upto: "committed_upto cfg s k" and k: "k < RTAPI_MAX_RINGS cfg"
  shows "\<exists>s'. rtapi_ring_new cfg be rsize sp_size module_id flags s = Some (int k, s') \<and>
           wf_state cfg s' \<and> \<not> ring_mutex s' \<and> committed_upto cfg s' (Suc k)"
proof -
  have tag: "magic (ring_array s ! k) \<noteq> RING_MAGIC cfg"
    and low: "\<forall>j < k. magic (ring_array s ! j) = RING_MAGIC cfg"
    using upto k by (simp_all add: committed_upto_def)
  have seg: "0 \<le> fst (shmem_new be (RTAPI_RING_SHM_KEY cfg + int k) module_id
                      (ring_memsize be flags rsize sp_size) (shm s))"
    and map: "fst (fst (shmem_getptr be
                 (fst (shmem_new be (RTAPI_RING_SHM_KEY cfg + int k) module_id
                         (ring_memsize be flags rsize sp_size) (shm s)))
                 (snd (shmem_new be (RTAPI_RING_SHM_KEY cfg + int k) module_id
                         (ring_memsize be flags rsize sp_size) (shm s))))) = 0"
    using ok by (simp_all add: backend_succeeds_def)
  from rtapi_ring_new_lowest_free [OF wf free k tag low seg map]
  obtain s' where new: "rtapi_ring_new cfg be rsize sp_size module_id flags s = Some (int k, s')"
    and wf': "wf_state cfg s'" and free': "\<not> ring_mutex s'" by blast
  have "committed_upto cfg s' (Suc k)"
    using rtapi_ring_new_committed_upto(2) [OF wf new upto k] by simp
  then show ?thesis using new wf' free' by blast
qed

lemma ring_new_seq_succeeds:
  assumes "backend_succeeds be" and "wf_state cfg s" and "\<not> ring_mutex s"
    and "committed_upto cfg s k" and "k + length calls \<le> RTAPI_MAX_RINGS cfg"
  shows "\<exists>s'. ring_new_seq cfg be calls s = Some (map int [k ..< k + length calls], s') \<and>
           wf_state cfg s' \<and> \<not> ring_mutex s' \<and> committed_upto cfg s' (k + length calls)"
  using assms(2-5)
proof (induction calls arbitrary: s k)
  case Nil
  then show ?case by simp
next
  case (Cons c calls)
  obtain rsize sp_size module_id flags where c: "c = (rsize, sp_size, module_id, flags)"
    by (cases c) auto
  have k: "k < RTAPI_MAX_RINGS cfg" using Cons.prems(4) by simp
  from rtapi_ring_new_next [OF assms(1) Cons.prems(1,2,3) k, of rsize sp_size module_id flags]
  obtain s1 where new: "rtapi_ring_new cfg be rsize sp_size module_id flags s = Some (int k, s1)"
    and wf1: "wf_state cfg s1" and free1: "\<not> ring_mutex s1"
    and upto1: "committed_upto cfg s1 (Suc k)" by blast
  have "Suc k + length calls \<le> RTAPI_MAX_RINGS cfg" using Cons.prems(4) by simp
  from Cons.IH [OF wf1 free1 upto1 this]
  obtain s' where seq: "ring_new_seq cfg be calls s1 =
        Some (map int [Suc k ..< Suc k + length calls], s')"
    and wf': "wf_state cfg s'" and free': "\<not> ring_mutex s'"
    and upto': "committed_upto cfg s' (Suc k + length calls)" by blast
  have upt: "[k ..< k + length (c # calls)] = k # [Suc k ..< Suc k + length calls]"
    using upt_conv_Cons [of k "k + length (c # calls)"] by simp
  have step: "ring_new_seq cfg be (c # calls) s =
      Some (map int [k ..< k + length (c # calls)], s')"
    unfolding upt using c new seq by simp
  have upto: "committed_upto cfg s' (k + length (c # calls))"
    using upto' by simp
  show ?case
    by (intro exI [of _ s'] conjI step wf' free' upto)
qed

text \<open>
  C4.  A successful \<^verbatim>\<open>_rtapi_ring_new\<close> returns the lowest index whose slot is not
  committed, and commits that slot.  And it does succeed there: when slot \<open>i\<close> is free,
  every slot below it is committed, and the backend creates and maps the segment of slot
  \<open>i\<close>, the call returns \<open>i\<close>.  From an empty table, \<^verbatim>\<open>RTAPI_MAX_RINGS\<close> calls in a row
  all return, and if all of them succeed their return values are
  \<open>0, 1, \<dots>, RTAPI_MAX_RINGS - 1\<close> in this order; with a backend that does not fail they do
  all succeed.  Every slot is then committed, and with every slot committed a call returns
  \<^verbatim>\<open>-ENOMEM\<close>, and the state is the one before but for the message it printed
  (\<open>rtapi_print_msg\<close> only appends to the messages).
\<close>

theorem create_lowest_free_slot_and_exhaustion:
  assumes "wf_state cfg s" and "\<not> ring_mutex s"
  shows "((\<forall>r s'. rtapi_ring_new cfg be rsize sp_size module_id flags s = Some (r, s') \<and> 0 \<le> r \<longrightarrow>
            (\<exists>i < RTAPI_MAX_RINGS cfg. r = int i \<and>
               magic (ring_array s ! i) \<noteq> RING_MAGIC cfg \<and>
               (\<forall>j < i. magic (ring_array s ! j) = RING_MAGIC cfg) \<and>
               magic (ring_array s' ! i) = RING_MAGIC cfg)) \<and>
         (committed_upto cfg s 0 \<and> length calls = RTAPI_MAX_RINGS cfg \<longrightarrow>
            (\<exists>rs s'. ring_new_seq cfg be calls s = Some (rs, s') \<and>
               ((\<forall>r \<in> set rs. 0 \<le> r) \<longrightarrow>
                  rs = map int [0 ..< RTAPI_MAX_RINGS cfg] \<and> distinct rs \<and>
                  committed_upto cfg s' (RTAPI_MAX_RINGS cfg) \<and>
                  rtapi_ring_new cfg be rsize sp_size module_id flags s' =
                    Some (- ENOMEM, rtapi_print_msg msg_new_exceeded s') \<and>
                  ring_array (rtapi_print_msg msg_new_exceeded s') = ring_array s'))) \<and>
         (committed_upto cfg s (RTAPI_MAX_RINGS cfg) \<longrightarrow>
            rtapi_ring_new cfg be rsize sp_size module_id flags s =
              Some (- ENOMEM, rtapi_print_msg msg_new_exceeded s) \<and>
            ring_array (rtapi_print_msg msg_new_exceeded s) = ring_array s)) \<and>
         (\<forall>i. i < RTAPI_MAX_RINGS cfg \<and> magic (ring_array s ! i) \<noteq> RING_MAGIC cfg \<and>
              (\<forall>j < i. magic (ring_array s ! j) = RING_MAGIC cfg) \<and>
              0 \<le> fst (shmem_new be (RTAPI_RING_SHM_KEY cfg + int i) module_id
                         (ring_memsize be flags rsize sp_size) (shm s)) \<and>
              fst (fst (shmem_getptr be
                 (fst (shmem_new be (RTAPI_RING_SHM_KEY cfg + int i) module_id
                         (ring_memsize be flags rsize sp_size) (shm s)))
                 (snd (shmem_new be (RTAPI_RING_SHM_KEY cfg + int i) module_id
                         (ring_memsize be flags rsize sp_size) (shm s))))) = 0 \<longrightarrow>
            (\<exists>s'. rtapi_ring_new cfg be rsize sp_size module_id flags s = Some (int i, s') \<and>
               magic (ring_array s' ! i) = RING_MAGIC cfg \<and>
               module_id \<in> bitmap (ring_array s' ! i) \<and>
               (\<forall>j. j \<noteq> i \<longrightarrow> ring_array s' ! j = ring_array s ! j))) \<and>
         (backend_succeeds be \<and> committed_upto cfg s 0 \<and>
          length calls = RTAPI_MAX_RINGS cfg \<longrightarrow>
            (\<exists>s'. ring_new_seq cfg be calls s =
                    Some (map int [0 ..< RTAPI_MAX_RINGS cfg], s') \<and>
               distinct (map int [0 ..< RTAPI_MAX_RINGS cfg]) \<and>
               committed_upto cfg s' (RTAPI_MAX_RINGS cfg) \<and>
               rtapi_ring_new cfg be rsize sp_size module_id flags s' =
                 Some (- ENOMEM, rtapi_print_msg msg_new_exceeded s') \<and>
               ring_array (rtapi_print_msg msg_new_exceeded s') = ring_array s'))"
proof -
  have old: "(\<forall>r s'. rtapi_ring_new cfg be rsize sp_size module_id flags s = Some (r, s') \<and> 0 \<le> r \<longrightarrow>
            (\<exists>i < RTAPI_MAX_RINGS cfg. r = int i \<and>
               magic (ring_array s ! i) \<noteq> RING_MAGIC cfg \<and>
               (\<forall>j < i. magic (ring_array s ! j) = RING_MAGIC cfg) \<and>
               magic (ring_array s' ! i) = RING_MAGIC cfg)) \<and>
         (committed_upto cfg s 0 \<and> length calls = RTAPI_MAX_RINGS cfg \<longrightarrow>
            (\<exists>rs s'. ring_new_seq cfg be calls s = Some (rs, s') \<and>
               ((\<forall>r \<in> set rs. 0 \<le> r) \<longrightarrow>
                  rs = map int [0 ..< RTAPI_MAX_RINGS cfg] \<and> distinct rs \<and>
                  committed_upto cfg s' (RTAPI_MAX_RINGS cfg) \<and>
                  rtapi_ring_new cfg be rsize sp_size module_id flags s' =
                    Some (- ENOMEM, rtapi_print_msg msg_new_exceeded s') \<and>
                  ring_array (rtapi_print_msg msg_new_exceeded s') = ring_array s'))) \<and>
         (committed_upto cfg s (RTAPI_MAX_RINGS cfg) \<longrightarrow>
            rtapi_ring_new cfg be rsize sp_size module_id flags s =
              Some (- ENOMEM, rtapi_print_msg msg_new_exceeded s) \<and>
            ring_array (rtapi_print_msg msg_new_exceeded s) = ring_array s)"
  proof (intro conjI allI impI)
    fix r s'
    assume a: "rtapi_ring_new cfg be rsize sp_size module_id flags s = Some (r, s') \<and> 0 \<le> r"
    then have new: "rtapi_ring_new cfg be rsize sp_size module_id flags s = Some (r, s')"
      and ok: "0 \<le> r" by simp_all
    have nf: "\<not> new_fails cfg be rsize sp_size module_id flags s"
      using rtapi_ring_new_negative [OF assms(1) new] ok by simp
    have lt: "new_slot cfg s < RTAPI_MAX_RINGS cfg"
      using nf new_slot_le [of cfg s] by (simp add: new_fails_def)
    have "r = int (new_slot cfg s)"
      using rtapi_ring_new_result(1) [OF assms(1) new] nf by simp
    moreover have "magic (ring_array s ! new_slot cfg s) \<noteq> RING_MAGIC cfg"
      using new_slot_free [of cfg s] lt by simp
    moreover have "\<forall>j < new_slot cfg s. magic (ring_array s ! j) = RING_MAGIC cfg"
      using new_slot_least [of _ cfg s] by simp
    moreover have "magic (ring_array s' ! new_slot cfg s) = RING_MAGIC cfg"
      using rtapi_ring_new_result(2) [OF assms(1) new] nf lt assms(1)
      by (simp add: new_fails_def wf_state_def)
    ultimately show "\<exists>i < RTAPI_MAX_RINGS cfg. r = int i \<and>
                 magic (ring_array s ! i) \<noteq> RING_MAGIC cfg \<and>
                 (\<forall>j < i. magic (ring_array s ! j) = RING_MAGIC cfg) \<and>
                 magic (ring_array s' ! i) = RING_MAGIC cfg"
      using lt by blast
  next
    assume a: "committed_upto cfg s 0 \<and> length calls = RTAPI_MAX_RINGS cfg"
    then have "0 + length calls \<le> RTAPI_MAX_RINGS cfg" by simp
    from ring_new_seq_handles [OF assms(1,2) conjunct1 [OF a] this, of be]
    obtain rs s' where seq: "ring_new_seq cfg be calls s = Some (rs, s')"
      and wf': "wf_state cfg s'" and free': "\<not> ring_mutex s'"
      and rest: "(\<forall>r \<in> set rs. 0 \<le> r) \<longrightarrow>
                 rs = map int [0 ..< 0 + length calls] \<and>
                 committed_upto cfg s' (0 + length calls)"
      by blast
    have all: "(\<forall>r \<in> set rs. 0 \<le> r) \<longrightarrow>
                    rs = map int [0 ..< RTAPI_MAX_RINGS cfg] \<and> distinct rs \<and>
                    committed_upto cfg s' (RTAPI_MAX_RINGS cfg) \<and>
                    rtapi_ring_new cfg be rsize sp_size module_id flags s' =
                      Some (- ENOMEM, rtapi_print_msg msg_new_exceeded s') \<and>
                    ring_array (rtapi_print_msg msg_new_exceeded s') = ring_array s'"
    proof
      assume "\<forall>r \<in> set rs. 0 \<le> r"
      then have rs: "rs = map int [0 ..< RTAPI_MAX_RINGS cfg]"
        and full: "committed_upto cfg s' (RTAPI_MAX_RINGS cfg)"
        using rest a by simp_all
      have "distinct rs" unfolding rs by (simp add: distinct_map)
      then show "rs = map int [0 ..< RTAPI_MAX_RINGS cfg] \<and> distinct rs \<and>
                    committed_upto cfg s' (RTAPI_MAX_RINGS cfg) \<and>
                    rtapi_ring_new cfg be rsize sp_size module_id flags s' =
                      Some (- ENOMEM, rtapi_print_msg msg_new_exceeded s') \<and>
                    ring_array (rtapi_print_msg msg_new_exceeded s') = ring_array s'"
        using rs full rtapi_ring_new_exhausted [OF wf' free' full] by simp
    qed
    show "\<exists>rs s'. ring_new_seq cfg be calls s = Some (rs, s') \<and>
                 ((\<forall>r \<in> set rs. 0 \<le> r) \<longrightarrow>
                    rs = map int [0 ..< RTAPI_MAX_RINGS cfg] \<and> distinct rs \<and>
                    committed_upto cfg s' (RTAPI_MAX_RINGS cfg) \<and>
                    rtapi_ring_new cfg be rsize sp_size module_id flags s' =
                      Some (- ENOMEM, rtapi_print_msg msg_new_exceeded s') \<and>
                    ring_array (rtapi_print_msg msg_new_exceeded s') = ring_array s')"
      by (intro exI [of _ rs] exI [of _ s'] conjI seq all)
  next
    assume "committed_upto cfg s (RTAPI_MAX_RINGS cfg)"
    then show "rtapi_ring_new cfg be rsize sp_size module_id flags s =
                Some (- ENOMEM, rtapi_print_msg msg_new_exceeded s)"
      using rtapi_ring_new_exhausted [OF assms] by simp
  next
    show "ring_array (rtapi_print_msg msg_new_exceeded s) = ring_array s" by simp
  qed
  have lowest: "\<forall>i. i < RTAPI_MAX_RINGS cfg \<and> magic (ring_array s ! i) \<noteq> RING_MAGIC cfg \<and>
              (\<forall>j < i. magic (ring_array s ! j) = RING_MAGIC cfg) \<and>
              0 \<le> fst (shmem_new be (RTAPI_RING_SHM_KEY cfg + int i) module_id
                         (ring_memsize be flags rsize sp_size) (shm s)) \<and>
              fst (fst (shmem_getptr be
                 (fst (shmem_new be (RTAPI_RING_SHM_KEY cfg + int i) module_id
                         (ring_memsize be flags rsize sp_size) (shm s)))
                 (snd (shmem_new be (RTAPI_RING_SHM_KEY cfg + int i) module_id
                         (ring_memsize be flags rsize sp_size) (shm s))))) = 0 \<longrightarrow>
            (\<exists>s'. rtapi_ring_new cfg be rsize sp_size module_id flags s = Some (int i, s') \<and>
               magic (ring_array s' ! i) = RING_MAGIC cfg \<and>
               module_id \<in> bitmap (ring_array s' ! i) \<and>
               (\<forall>j. j \<noteq> i \<longrightarrow> ring_array s' ! j = ring_array s ! j))"
  proof (intro allI impI)
    fix i
    assume a: "i < RTAPI_MAX_RINGS cfg \<and> magic (ring_array s ! i) \<noteq> RING_MAGIC cfg \<and>
              (\<forall>j < i. magic (ring_array s ! j) = RING_MAGIC cfg) \<and>
              0 \<le> fst (shmem_new be (RTAPI_RING_SHM_KEY cfg + int i) module_id
                         (ring_memsize be flags rsize sp_size) (shm s)) \<and>
              fst (fst (shmem_getptr be
                 (fst (shmem_new be (RTAPI_RING_SHM_KEY cfg + int i) module_id
                         (ring_memsize be flags rsize sp_size) (shm s)))
                 (snd (shmem_new be (RTAPI_RING_SHM_KEY cfg + int i) module_id
                         (ring_memsize be flags rsize sp_size) (shm s))))) = 0"
    from rtapi_ring_new_lowest_free [OF assms, of i be module_id flags rsize sp_size] a
    show "\<exists>s'. rtapi_ring_new cfg be rsize sp_size module_id flags s = Some (int i, s') \<and>
               magic (ring_array s' ! i) = RING_MAGIC cfg \<and>
               module_id \<in> bitmap (ring_array s' ! i) \<and>
               (\<forall>j. j \<noteq> i \<longrightarrow> ring_array s' ! j = ring_array s ! j)"
      by blast
  qed
  have seq: "backend_succeeds be \<and> committed_upto cfg s 0 \<and>
          length calls = RTAPI_MAX_RINGS cfg \<longrightarrow>
            (\<exists>s'. ring_new_seq cfg be calls s =
                    Some (map int [0 ..< RTAPI_MAX_RINGS cfg], s') \<and>
               distinct (map int [0 ..< RTAPI_MAX_RINGS cfg]) \<and>
               committed_upto cfg s' (RTAPI_MAX_RINGS cfg) \<and>
               rtapi_ring_new cfg be rsize sp_size module_id flags s' =
                 Some (- ENOMEM, rtapi_print_msg msg_new_exceeded s') \<and>
               ring_array (rtapi_print_msg msg_new_exceeded s') = ring_array s')"
  proof
    assume a: "backend_succeeds be \<and> committed_upto cfg s 0 \<and>
          length calls = RTAPI_MAX_RINGS cfg"
    then have ok: "backend_succeeds be" and empty: "committed_upto cfg s 0"
      and len: "0 + length calls \<le> RTAPI_MAX_RINGS cfg" by simp_all
    from ring_new_seq_succeeds [OF ok assms empty len]
    obtain s' where seq: "ring_new_seq cfg be calls s =
          Some (map int [0 ..< 0 + length calls], s')"
      and wf': "wf_state cfg s'" and free': "\<not> ring_mutex s'"
      and full: "committed_upto cfg s' (0 + length calls)" by blast
    have n: "0 + length calls = RTAPI_MAX_RINGS cfg" using a by simp
    have seq': "ring_new_seq cfg be calls s = Some (map int [0 ..< RTAPI_MAX_RINGS cfg], s')"
      using seq unfolding n .
    have full': "committed_upto cfg s' (RTAPI_MAX_RINGS cfg)"
      using full unfolding n .
    have dist: "distinct (map int [0 ..< RTAPI_MAX_RINGS cfg])"
      by (simp add: distinct_map)
    have exh: "rtapi_ring_new cfg be rsize sp_size module_id flags s' =
                 Some (- ENOMEM, rtapi_print_msg msg_new_exceeded s')"
      using rtapi_ring_new_exhausted [OF wf' free' full'] .
    have same: "ring_array (rtapi_print_msg msg_new_exceeded s') = ring_array s'" by simp
    show "\<exists>s'. ring_new_seq cfg be calls s =
                    Some (map int [0 ..< RTAPI_MAX_RINGS cfg], s') \<and>
               distinct (map int [0 ..< RTAPI_MAX_RINGS cfg]) \<and>
               committed_upto cfg s' (RTAPI_MAX_RINGS cfg) \<and>
               rtapi_ring_new cfg be rsize sp_size module_id flags s' =
                 Some (- ENOMEM, rtapi_print_msg msg_new_exceeded s') \<and>
               ring_array (rtapi_print_msg msg_new_exceeded s') = ring_array s'"
      by (intro exI [of _ s'] conjI seq' dist full' exh same)
  qed
  show ?thesis
    by (rule conjI [OF old conjI [OF lowest seq]])
qed

theorem create_lowest_free_slot_and_exhaustion_witness:
  "wf_state (user_cfg 3) (empty_table (user_cfg 3) (0::nat)) \<and>
   \<not> ring_mutex (empty_table (user_cfg 3) (0::nat)) \<and>
   backend_succeeds (test_backend True True True True) \<and>
   committed_upto (user_cfg 3) (empty_table (user_cfg 3) (0::nat)) 0 \<and>
   ring_new_seq (user_cfg 3) (test_backend True True True True)
     [(4096, 0, 7, 0), (1024, 16, 3, 0), (512, 0, 5, 0)] (empty_table (user_cfg 3) 0) =
   Some ([0, 1, 2],
     \<lparr>ring_array =
        [\<lparr>magic = 1380535879, key = 4280320, owner = 7, shmem_id = 1, bitmap = {7}, count = 0\<rparr>,
         \<lparr>magic = 1380535879, key = 4280321, owner = 3, shmem_id = 2, bitmap = {3}, count = 0\<rparr>,
         \<lparr>magic = 1380535879, key = 4280322, owner = 5, shmem_id = 3, bitmap = {5}, count = 0\<rparr>],
      ring_addr_array = [4096, 8192, 12288, 0], ring_mutex = False, mutex = False, shm = 3,
      msgs = []\<rparr>) \<and>
   rtapi_ring_new (user_cfg 3) (test_backend True True True True) 256 0 6 0
     \<lparr>ring_array =
        [\<lparr>magic = 1380535879, key = 4280320, owner = 7, shmem_id = 1, bitmap = {7}, count = 0\<rparr>,
         \<lparr>magic = 1380535879, key = 4280321, owner = 3, shmem_id = 2, bitmap = {3}, count = 0\<rparr>,
         \<lparr>magic = 1380535879, key = 4280322, owner = 5, shmem_id = 3, bitmap = {5}, count = 0\<rparr>],
      ring_addr_array = [4096, 8192, 12288, 0], ring_mutex = False, mutex = False, shm = 3,
      msgs = []\<rparr> =
   Some (- 12,
     \<lparr>ring_array =
        [\<lparr>magic = 1380535879, key = 4280320, owner = 7, shmem_id = 1, bitmap = {7}, count = 0\<rparr>,
         \<lparr>magic = 1380535879, key = 4280321, owner = 3, shmem_id = 2, bitmap = {3}, count = 0\<rparr>,
         \<lparr>magic = 1380535879, key = 4280322, owner = 5, shmem_id = 3, bitmap = {5}, count = 0\<rparr>],
      ring_addr_array = [4096, 8192, 12288, 0], ring_mutex = False, mutex = False, shm = 3,
      msgs = [msg_new_exceeded]\<rparr>)"
proof -
  let ?calls = "[(4096::nat, 0::nat, 7::int, 0::int), (1024, 16, 3, 0), (512, 0, 5, 0)]"
  let ?full = "\<lparr>ring_array =
        [\<lparr>magic = 1380535879, key = 4280320, owner = 7, shmem_id = 1, bitmap = {7}, count = 0\<rparr>,
         \<lparr>magic = 1380535879, key = 4280321, owner = 3, shmem_id = 2, bitmap = {3}, count = 0\<rparr>,
         \<lparr>magic = 1380535879, key = 4280322, owner = 5, shmem_id = 3, bitmap = {5}, count = 0\<rparr>],
      ring_addr_array = [4096, 8192, 12288, 0], ring_mutex = False, mutex = False, shm = 3::nat,
      msgs = []\<rparr>"
  have wf: "wf_state (user_cfg 3) (empty_table (user_cfg 3) (0::nat))"
    by (simp add: sample_defs)
  have free: "\<not> ring_mutex (empty_table (user_cfg 3) (0::nat))"
    by (simp add: empty_table_def)
  have ok: "backend_succeeds (test_backend True True True True)"
    by (simp add: backend_succeeds_def test_backend_def)
  have empty: "committed_upto (user_cfg 3) (empty_table (user_cfg 3) (0::nat)) 0"
    by (simp add: committed_upto_def user_cfg_def empty_table_def free_slot_def)
  have len: "length ?calls = RTAPI_MAX_RINGS (user_cfg 3)"
    by (simp add: user_cfg_def)
  have upt: "map int [0 ..< RTAPI_MAX_RINGS (user_cfg 3)] = [0, 1, 2]"
    by (simp add: user_cfg_def upt_rec)
  have "backend_succeeds (test_backend True True True True) \<and>
        committed_upto (user_cfg 3) (empty_table (user_cfg 3) (0::nat)) 0 \<and>
        length ?calls = RTAPI_MAX_RINGS (user_cfg 3) \<longrightarrow>
     (\<exists>s'. ring_new_seq (user_cfg 3) (test_backend True True True True) ?calls
               (empty_table (user_cfg 3) 0) =
             Some (map int [0 ..< RTAPI_MAX_RINGS (user_cfg 3)], s') \<and>
        distinct (map int [0 ..< RTAPI_MAX_RINGS (user_cfg 3)]) \<and>
        committed_upto (user_cfg 3) s' (RTAPI_MAX_RINGS (user_cfg 3)) \<and>
        rtapi_ring_new (user_cfg 3) (test_backend True True True True) 256 0 6 0 s' =
          Some (- ENOMEM, rtapi_print_msg msg_new_exceeded s') \<and>
        ring_array (rtapi_print_msg msg_new_exceeded s') = ring_array s')"
    using create_lowest_free_slot_and_exhaustion [OF wf free,
        of "test_backend True True True True" 256 0 6 0 ?calls]
    by (rule conjunct2 [OF conjunct2])
  with ok empty len
  obtain s' where seq: "ring_new_seq (user_cfg 3) (test_backend True True True True) ?calls
               (empty_table (user_cfg 3) 0) =
             Some (map int [0 ..< RTAPI_MAX_RINGS (user_cfg 3)], s')"
    and exh: "rtapi_ring_new (user_cfg 3) (test_backend True True True True) 256 0 6 0 s' =
          Some (- ENOMEM, rtapi_print_msg msg_new_exceeded s')"
    by blast
  have run: "ring_new_seq (user_cfg 3) (test_backend True True True True) ?calls
               (empty_table (user_cfg 3) 0) = Some ([0, 1, 2], ?full)"
    by (simp add: sample_defs op_defs)
  have "s' = ?full" using seq run by simp
  then have "rtapi_ring_new (user_cfg 3) (test_backend True True True True) 256 0 6 0 ?full =
          Some (- 12, rtapi_print_msg msg_new_exceeded ?full)"
    using exh by (simp add: ENOMEM_def)
  then show ?thesis
    using wf free ok empty run by (simp add: rtapi_print_msg_def)
qed

subsection \<open>\_rtapi\_ring\_refcount\<close>

lemma finite_counted [simp]: "finite (counted cfg bm)"
proof -
  have "counted cfg bm \<subseteq> {0 ..< int (RTAPI_MAX_RINGS cfg)}"
    by (auto simp: counted_def)
  then show ?thesis using finite_subset by blast
qed

lemma counted_image:
  "counted cfg bm = int ` {j. j < RTAPI_MAX_RINGS cfg \<and> int j \<in> bm}"
proof (rule set_eqI)
  fix i
  show "(i \<in> counted cfg bm) = (i \<in> int ` {j. j < RTAPI_MAX_RINGS cfg \<and> int j \<in> bm})"
  proof
    assume "i \<in> counted cfg bm"
    then have "nat i < RTAPI_MAX_RINGS cfg \<and> int (nat i) \<in> bm \<and> i = int (nat i)"
      by (auto simp: counted_def nat_less_iff)
    then show "i \<in> int ` {j. j < RTAPI_MAX_RINGS cfg \<and> int j \<in> bm}" by blast
  next
    assume "i \<in> int ` {j. j < RTAPI_MAX_RINGS cfg \<and> int j \<in> bm}"
    then show "i \<in> counted cfg bm" by (auto simp: counted_def)
  qed
qed

lemma count_bits_counted: "count_bits cfg bm 0 0 = int (card (counted cfg bm))"
proof -
  have "card (counted cfg bm) = card {j. j < RTAPI_MAX_RINGS cfg \<and> int j \<in> bm}"
    unfolding counted_image by (rule card_image) simp
  then show ?thesis by (simp add: count_bits_card)
qed

lemma count_bits_zero: "(count_bits cfg bm 0 0 = 0) = (counted cfg bm = {})"
  by (simp add: count_bits_counted)

lemma ring_refcount_body_mutex [simp]:
  "ring_refcount_body cfg handle (s\<lparr>mutex := v\<rparr>) = ring_refcount_body cfg handle s"
  by (simp add: ring_refcount_body_def)

lemma rtapi_ring_refcount_held: "mutex s \<Longrightarrow> rtapi_ring_refcount cfg handle s = None"
  by (simp add: rtapi_ring_refcount_def rtapi_mutex_get_rtapi_def)

lemma rtapi_ring_refcount_free:
  "\<not> mutex s \<Longrightarrow>
   rtapi_ring_refcount cfg handle s = Some (ring_refcount_body cfg handle s, s)"
  by (simp add: rtapi_ring_refcount_def rtapi_mutex_get_rtapi_def rtapi_autorelease_mutex_def)

lemma ring_refcount_body_invalid:
  "handle < 0 \<or> int (RTAPI_MAX_RINGS cfg) \<le> handle \<or>
     magic (ring_array s ! nat handle) \<noteq> RING_MAGIC cfg \<Longrightarrow>
   ring_refcount_body cfg handle s = - EINVAL"
  by (auto simp: ring_refcount_body_def)

lemma ring_refcount_body_valid:
  "0 \<le> handle \<Longrightarrow> handle < int (RTAPI_MAX_RINGS cfg) \<Longrightarrow>
   magic (ring_array s ! nat handle) = RING_MAGIC cfg \<Longrightarrow>
   ring_refcount_body cfg handle s =
     int (card (counted cfg (bitmap (ring_array s ! nat handle))))"
  by (simp add: ring_refcount_body_def count_bits_counted)

text \<open>
  C6 (the code at the failing input).  With \<^verbatim>\<open>RTAPI_MAX_RINGS\<close> = 4, module 7 creates a
  ring in the empty table and gets handle 0.  The slot is committed and its bitmap is
  \<open>{7}\<close>, one attached module; \<^verbatim>\<open>_rtapi_ring_refcount\<close> returns 0, because its loop
  tests the bits 0 to 3 only.
\<close>

theorem refcount_misses_module_7:
  "rtapi_ring_new (user_cfg 4) (test_backend True True True True) 4096 0 7 0
     (empty_table (user_cfg 4) 0) =
   Some (0,
     \<lparr>ring_array =
        [\<lparr>magic = 1380535879, key = 4280320, owner = 7, shmem_id = 1, bitmap = {7}, count = 0\<rparr>,
         free_slot, free_slot, free_slot],
      ring_addr_array = [4096, 0, 0, 0, 0], ring_mutex = False, mutex = False, shm = 1,
      msgs = []\<rparr>) \<and>
   RING_MAGIC (user_cfg 4) = 1380535879 \<and>
   card {7::int} = 1 \<and>
   rtapi_ring_refcount (user_cfg 4) 0
     \<lparr>ring_array =
        [\<lparr>magic = 1380535879, key = 4280320, owner = 7, shmem_id = 1, bitmap = {7}, count = 0\<rparr>,
         free_slot, free_slot, free_slot],
      ring_addr_array = [4096, 0, 0, 0, 0], ring_mutex = False, mutex = False, shm = 1::nat,
      msgs = []\<rparr> =
   Some (0,
     \<lparr>ring_array =
        [\<lparr>magic = 1380535879, key = 4280320, owner = 7, shmem_id = 1, bitmap = {7}, count = 0\<rparr>,
         free_slot, free_slot, free_slot],
      ring_addr_array = [4096, 0, 0, 0, 0], ring_mutex = False, mutex = False, shm = 1,
      msgs = []\<rparr>)"
  by (simp add: sample_defs op_defs)

subsection \<open>\_rtapi\_ring\_attach\<close>

lemmas attach_body_defs = ring_attach_body_def attach_committed_def attach_uncommitted_def
  attach_record_def Let_def set_bit_bm_def

lemma ring_attach_body_other_slots:
  "j \<noteq> nat handle \<Longrightarrow>
   ring_array (snd (ring_attach_body cfg be handle module_id s)) ! j = ring_array s ! j"
  by (simp add: attach_body_defs split: prod.splits)

lemma ring_attach_body_lengths:
  "length (ring_array (snd (ring_attach_body cfg be handle module_id s))) =
     length (ring_array s)"
  "length (ring_addr_array (snd (ring_attach_body cfg be handle module_id s))) =
     length (ring_addr_array s)"
  by (simp_all add: attach_body_defs split: prod.splits)

lemma ring_attach_body_locks:
  "ring_mutex (snd (ring_attach_body cfg be handle module_id s)) = ring_mutex s"
  "mutex (snd (ring_attach_body cfg be handle module_id s)) = mutex s"
  by (simp_all add: attach_body_defs split: prod.splits)

lemma ring_attach_body_success:
  assumes "fst (ring_attach_body cfg be handle module_id s) = 0"
    and "length (ring_array s) = RTAPI_MAX_RINGS cfg"
  shows "0 \<le> handle" and "handle < int (RTAPI_MAX_RINGS cfg)"
    and "magic (ring_array (snd (ring_attach_body cfg be handle module_id s)) ! nat handle) =
           RING_MAGIC cfg"
    and "module_id \<in>
           bitmap (ring_array (snd (ring_attach_body cfg be handle module_id s)) ! nat handle)"
proof -
  show range: "0 \<le> handle" "handle < int (RTAPI_MAX_RINGS cfg)"
    using assms(1) by (auto simp: ring_attach_body_def EINVAL_def split: if_splits)
  then have h: "nat handle < length (ring_array s)"
    using assms(2) by simp
  show "magic (ring_array (snd (ring_attach_body cfg be handle module_id s)) ! nat handle) =
           RING_MAGIC cfg"
    using assms(1) h
    by (auto simp: attach_body_defs EINVAL_def ENOMEM_def split: prod.splits if_splits)
  show "module_id \<in>
           bitmap (ring_array (snd (ring_attach_body cfg be handle module_id s)) ! nat handle)"
    using assms(1) h
    by (auto simp: attach_body_defs EINVAL_def ENOMEM_def split: prod.splits if_splits)
qed

lemma ring_attach_body_member:
  assumes "0 \<le> handle" and "handle < int (RTAPI_MAX_RINGS cfg)"
    and "magic (ring_array s ! nat handle) = RING_MAGIC cfg"
    and "module_id \<in> bitmap (ring_array s ! nat handle)"
  shows "ring_array (snd (ring_attach_body cfg be handle module_id s)) = ring_array s"
proof -
  have "(ring_array s ! nat handle)
          \<lparr>bitmap := insert module_id (bitmap (ring_array s ! nat handle))\<rparr> =
        ring_array s ! nat handle"
    using assms(4) by (simp add: insert_absorb)
  then show ?thesis
    using assms(1-3) by (simp add: attach_body_defs split: prod.splits)
qed

lemma rtapi_ring_attach_held:
  "ring_mutex s \<Longrightarrow> rtapi_ring_attach cfg be handle module_id s = None"
  by (simp add: rtapi_ring_attach_def rtapi_mutex_get_ring_def)

lemma rtapi_ring_attach_free:
  "\<not> ring_mutex s \<Longrightarrow>
   rtapi_ring_attach cfg be handle module_id s =
     Some (fst (ring_attach_body cfg be handle module_id (s\<lparr>ring_mutex := True\<rparr>)),
           ring_autorelease_mutex
             (snd (ring_attach_body cfg be handle module_id (s\<lparr>ring_mutex := True\<rparr>))))"
  by (simp add: rtapi_ring_attach_def rtapi_mutex_get_ring_def split: prod.splits)

lemma rtapi_ring_attach_SomeD:
  assumes "rtapi_ring_attach cfg be handle module_id s = Some (r, s')"
  shows "\<not> ring_mutex s"
    and "r = fst (ring_attach_body cfg be handle module_id (s\<lparr>ring_mutex := True\<rparr>))"
    and "s' = ring_autorelease_mutex
           (snd (ring_attach_body cfg be handle module_id (s\<lparr>ring_mutex := True\<rparr>)))"
proof -
  show free: "\<not> ring_mutex s"
    using assms rtapi_ring_attach_held [of s cfg be handle module_id] by auto
  show "r = fst (ring_attach_body cfg be handle module_id (s\<lparr>ring_mutex := True\<rparr>))"
    using assms rtapi_ring_attach_free [OF free, of cfg be handle module_id] by simp
  show "s' = ring_autorelease_mutex
           (snd (ring_attach_body cfg be handle module_id (s\<lparr>ring_mutex := True\<rparr>)))"
    using assms rtapi_ring_attach_free [OF free, of cfg be handle module_id] by simp
qed

lemma rtapi_ring_attach_locks:
  assumes "rtapi_ring_attach cfg be handle module_id s = Some (r, s')"
  shows "\<not> ring_mutex s'" and "mutex s' = mutex s"
  by (simp_all add: rtapi_ring_attach_SomeD(3) [OF assms] ring_attach_body_locks)

lemma rtapi_ring_attach_wf:
  assumes "wf_state cfg s" and "rtapi_ring_attach cfg be handle module_id s = Some (r, s')"
  shows "wf_state cfg s'"
  using assms(1)
  by (simp add: rtapi_ring_attach_SomeD(3) [OF assms(2)] ring_attach_body_lengths wf_state_def)

lemma ring_refcount_body_cong:
  "ring_array s = ring_array t \<Longrightarrow> ring_refcount_body cfg handle s = ring_refcount_body cfg handle t"
  by (simp add: ring_refcount_body_def)

lemma rtapi_ring_refcount_cong:
  "ring_array s = ring_array t \<Longrightarrow> mutex s = mutex t \<Longrightarrow>
   map_option fst (rtapi_ring_refcount cfg handle s) =
   map_option fst (rtapi_ring_refcount cfg handle t)"
  using ring_refcount_body_cong [of s t cfg handle]
  by (cases "mutex t") (simp_all add: rtapi_ring_refcount_held rtapi_ring_refcount_free)

text \<open>
  C7.  Let \<^verbatim>\<open>_rtapi_ring_attach(handle, module_id)\<close> succeed.  Then the same call made
  again returns, and it leaves the whole table as the first call left it: the bitmap of
  every slot, and with it the value \<^verbatim>\<open>_rtapi_ring_refcount(handle)\<close> returns, are the
  same after the second call as after the first.
\<close>

theorem attach_idempotent:
  assumes "wf_state cfg s"
    and "rtapi_ring_attach cfg be handle module_id s = Some (0, s1)"
  shows "\<exists>r2 s2. rtapi_ring_attach cfg be handle module_id s1 = Some (r2, s2) \<and>
           ring_array s2 = ring_array s1 \<and>
           map bitmap (ring_array s2) = map bitmap (ring_array s1) \<and>
           map_option fst (rtapi_ring_refcount cfg handle s2) =
             map_option fst (rtapi_ring_refcount cfg handle s1)"
proof -
  let ?s0 = "s\<lparr>ring_mutex := True\<rparr>"
  have len: "length (ring_array ?s0) = RTAPI_MAX_RINGS cfg"
    using assms(1) by (simp add: wf_state_def)
  have ok: "fst (ring_attach_body cfg be handle module_id ?s0) = 0"
    using rtapi_ring_attach_SomeD(2) [OF assms(2)] by simp
  have s1: "ring_array s1 = ring_array (snd (ring_attach_body cfg be handle module_id ?s0))"
    by (simp add: rtapi_ring_attach_SomeD(3) [OF assms(2)])
  have range: "0 \<le> handle" "handle < int (RTAPI_MAX_RINGS cfg)"
    and committed: "magic (ring_array s1 ! nat handle) = RING_MAGIC cfg"
    and member: "module_id \<in> bitmap (ring_array s1 ! nat handle)"
    using ring_attach_body_success [OF ok len] s1 by simp_all
  have free1: "\<not> ring_mutex s1"
    using rtapi_ring_attach_locks(1) [OF assms(2)] .
  let ?r2 = "fst (ring_attach_body cfg be handle module_id (s1\<lparr>ring_mutex := True\<rparr>))"
  let ?s2 = "ring_autorelease_mutex
               (snd (ring_attach_body cfg be handle module_id (s1\<lparr>ring_mutex := True\<rparr>)))"
  have second: "rtapi_ring_attach cfg be handle module_id s1 = Some (?r2, ?s2)"
    using rtapi_ring_attach_free [OF free1] .
  have same: "ring_array ?s2 = ring_array s1"
    using ring_attach_body_member [of handle cfg "s1\<lparr>ring_mutex := True\<rparr>" module_id be]
      range committed member by simp
  have "mutex ?s2 = mutex s1"
    by (simp add: ring_attach_body_locks)
  then have count: "map_option fst (rtapi_ring_refcount cfg handle ?s2) =
             map_option fst (rtapi_ring_refcount cfg handle s1)"
    using rtapi_ring_refcount_cong [OF same] by simp
  show ?thesis
    using second same count by (intro exI [of _ ?r2] exI [of _ ?s2]) simp
qed

lemma one_ring_created:
  "rtapi_ring_new (user_cfg 8) (test_backend True True True True) 4096 0 7 0
     (empty_table (user_cfg 8) 0) = Some (0, one_ring {7})"
  by (simp add: one_ring_def sample_defs op_defs)

lemma wf_one_ring: "wf_state (user_cfg 8) (one_ring bm)"
  by (simp add: one_ring_def sample_defs)

lemma one_ring_attach:
  "rtapi_ring_attach (user_cfg 8) (test_backend True True True True) 0 3 (one_ring bm) =
     Some (0, one_ring (insert 3 bm))"
  by (simp add: one_ring_def sample_defs op_defs)

lemma one_ring_refcount_2:
  "rtapi_ring_refcount (user_cfg 8) 0 (one_ring {3, 7}) = Some (2, one_ring {3, 7})"
  by (simp add: one_ring_def sample_defs op_defs)

theorem attach_idempotent_witness:
  "wf_state (user_cfg 8) (one_ring {7}) \<and>
   rtapi_ring_attach (user_cfg 8) (test_backend True True True True) 0 3 (one_ring {7}) =
     Some (0, one_ring {3, 7}) \<and>
   rtapi_ring_attach (user_cfg 8) (test_backend True True True True) 0 3 (one_ring {3, 7}) =
     Some (0, one_ring {3, 7}) \<and>
   rtapi_ring_refcount (user_cfg 8) 0 (one_ring {3, 7}) = Some (2, one_ring {3, 7})"
proof -
  have first: "rtapi_ring_attach (user_cfg 8) (test_backend True True True True) 0 3
      (one_ring {7}) = Some (0, one_ring {3, 7})"
    using one_ring_attach [of "{7}"] by simp
  have second: "rtapi_ring_attach (user_cfg 8) (test_backend True True True True) 0 3
      (one_ring {3, 7}) = Some (0, one_ring {3, 7})"
    using one_ring_attach [of "{3, 7}"] by simp
  from attach_idempotent [OF wf_one_ring first]
  obtain r2 s2 where "rtapi_ring_attach (user_cfg 8) (test_backend True True True True) 0 3
      (one_ring {3, 7}) = Some (r2, s2)"
    and "ring_array s2 = ring_array (one_ring {3, 7})"
    and "map_option fst (rtapi_ring_refcount (user_cfg 8) 0 s2) =
         map_option fst (rtapi_ring_refcount (user_cfg 8) 0 (one_ring {3, 7}))"
    by blast
  then show ?thesis
    using wf_one_ring first second one_ring_refcount_2 by simp
qed

subsection \<open>\_rtapi\_ring\_detach\<close>

text \<open>The state in which \<^verbatim>\<open>_rtapi_ring_detach\<close> calls \<^verbatim>\<open>_rtapi_ring_refcount\<close>.\<close>

lemma detach_cleared_slot:
  assumes "nat handle < length (ring_array s)"
  shows "ring_array (upd_slot (nat handle)
            (\<lambda>rd. rd\<lparr>bitmap := clear_bit_bm module_id (bitmap rd)\<rparr>) s) ! nat handle =
         (ring_array s ! nat handle)\<lparr>bitmap := bitmap (ring_array s ! nat handle) - {module_id}\<rparr>"
  using assms by (simp add: clear_bit_bm_def)

lemma ring_detach_body_committed:
  assumes "wf_state cfg s" and "0 \<le> handle" and "handle < int (RTAPI_MAX_RINGS cfg)"
    and "magic (ring_array s ! nat handle) = RING_MAGIC cfg" and "\<not> mutex s"
  shows "ring_detach_body cfg be handle module_id s =
     Some (if counted cfg (bitmap (ring_array s ! nat handle) - {module_id}) \<noteq> {}
           then (0, rtapi_print_msg msg_detach_remaining
                  (upd_slot (nat handle)
                     (\<lambda>rd. rd\<lparr>bitmap := clear_bit_bm module_id (bitmap rd)\<rparr>) s))
           else detach_release be (nat handle)
                  (upd_slot (nat handle)
                     (\<lambda>rd. rd\<lparr>bitmap := clear_bit_bm module_id (bitmap rd)\<rparr>) s))"
proof -
  let ?c = "upd_slot (nat handle) (\<lambda>rd. rd\<lparr>bitmap := clear_bit_bm module_id (bitmap rd)\<rparr>) s"
  have h: "nat handle < length (ring_array s)"
    using assms(1-3) by (simp add: wf_state_def)
  have slot: "ring_array ?c ! nat handle =
         (ring_array s ! nat handle)\<lparr>bitmap := bitmap (ring_array s ! nat handle) - {module_id}\<rparr>"
    using detach_cleared_slot [OF h] .
  have "ring_refcount_body cfg handle ?c =
          int (card (counted cfg (bitmap (ring_array s ! nat handle) - {module_id})))"
    using ring_refcount_body_valid [of handle cfg ?c] assms(2-4) slot by simp
  moreover have "rtapi_ring_refcount cfg handle ?c = Some (ring_refcount_body cfg handle ?c, ?c)"
    using rtapi_ring_refcount_free [of ?c cfg handle] assms(5) by simp
  ultimately have "rtapi_ring_refcount cfg handle ?c =
      Some (int (card (counted cfg (bitmap (ring_array s ! nat handle) - {module_id}))), ?c)"
    by simp
  then show ?thesis
    using assms(2-4) by (simp add: ring_detach_body_def)
qed

lemma ring_detach_body_invalid:
  assumes "handle < 0 \<or> int (RTAPI_MAX_RINGS cfg) \<le> handle \<or>
     magic (ring_array s ! nat handle) \<noteq> RING_MAGIC cfg"
  shows "ring_detach_body cfg be handle module_id s = Some (- EINVAL, s)"
  using assms by (auto simp: ring_detach_body_def)

lemma detach_release_slot:
  assumes "h < length (ring_array s)"
  shows "fst (detach_release be h s) = 0"
    and "ring_array (snd (detach_release be h s)) =
           (ring_array s)[h := (ring_array s ! h)\<lparr>magic := 0\<rparr>]"
    and "shm (snd (detach_release be h s)) =
           snd (shmem_delete be (shmem_id (ring_array s ! h)) (owner (ring_array s ! h)) (shm s))"
    and "msgs (snd (detach_release be h s)) =
           (if fst (shmem_delete be (shmem_id (ring_array s ! h)) (owner (ring_array s ! h))
                  (shm s)) \<noteq> 0
            then msgs s @ [msg_detach_delete] else msgs s)"
    and "mutex (snd (detach_release be h s)) = mutex s"
    and "ring_addr_array (snd (detach_release be h s)) = ring_addr_array s"
  by (simp_all add: detach_release_def split: prod.splits)

lemma rtapi_ring_detach_committed:
  assumes "wf_state cfg s" and "0 \<le> handle" and "handle < int (RTAPI_MAX_RINGS cfg)"
    and "magic (ring_array s ! nat handle) = RING_MAGIC cfg" and "\<not> mutex s"
  shows "\<exists>s'. rtapi_ring_detach cfg be handle module_id s = Some (0, s') \<and>
           \<not> ring_mutex s' \<and> \<not> mutex s' \<and> wf_state cfg s' \<and>
           ring_array s' = (ring_array s)[nat handle := (ring_array s ! nat handle)
              \<lparr>bitmap := bitmap (ring_array s ! nat handle) - {module_id},
               magic := (if counted cfg (bitmap (ring_array s ! nat handle) - {module_id}) \<noteq> {}
                         then RING_MAGIC cfg else 0)\<rparr>] \<and>
           shm s' = (if counted cfg (bitmap (ring_array s ! nat handle) - {module_id}) \<noteq> {}
                     then shm s
                     else snd (shmem_delete be (shmem_id (ring_array s ! nat handle))
                             (owner (ring_array s ! nat handle)) (shm s)))"
proof -
  let ?c = "upd_slot (nat handle) (\<lambda>rd. rd\<lparr>bitmap := clear_bit_bm module_id (bitmap rd)\<rparr>) s"
  have h: "nat handle < length (ring_array s)"
    using assms(1-3) by (simp add: wf_state_def)
  have hc: "nat handle < length (ring_array ?c)" using h by simp
  have slot: "ring_array ?c ! nat handle =
         (ring_array s ! nat handle)\<lparr>bitmap := bitmap (ring_array s ! nat handle) - {module_id}\<rparr>"
    using detach_cleared_slot [OF h] .
  have arr: "ring_array ?c = (ring_array s)[nat handle := (ring_array s ! nat handle)
         \<lparr>bitmap := bitmap (ring_array s ! nat handle) - {module_id}\<rparr>]"
    by (simp add: clear_bit_bm_def)
  show ?thesis
  proof (cases "counted cfg (bitmap (ring_array s ! nat handle) - {module_id}) \<noteq> {}")
    case True
    then have "rtapi_ring_detach cfg be handle module_id s =
        Some (0, ring_autorelease_mutex (rtapi_print_msg msg_detach_remaining ?c))"
      using ring_detach_body_committed [OF assms, of be module_id]
      by (simp add: rtapi_ring_detach_def)
    moreover have "(ring_array s ! nat handle)
         \<lparr>bitmap := bitmap (ring_array s ! nat handle) - {module_id}, magic := RING_MAGIC cfg\<rparr> =
       (ring_array s ! nat handle)\<lparr>bitmap := bitmap (ring_array s ! nat handle) - {module_id}\<rparr>"
      using assms(4) by simp
    ultimately show ?thesis
      using True assms(1,5) arr by (simp add: wf_state_def)
  next
    case False
    have rel: "detach_release be (nat handle) ?c = (0, snd (detach_release be (nat handle) ?c))"
      using detach_release_slot(1) [OF hc, of be] by (metis prod.collapse)
    have "ring_detach_body cfg be handle module_id s =
        Some (0, snd (detach_release be (nat handle) ?c))"
      using ring_detach_body_committed [OF assms, of be module_id] False rel by simp
    then have "rtapi_ring_detach cfg be handle module_id s =
        Some (0, ring_autorelease_mutex (snd (detach_release be (nat handle) ?c)))"
      by (simp add: rtapi_ring_detach_def)
    then show ?thesis
      using False assms(1,5) h detach_release_slot(2,3,5,6) [OF hc, of be] slot
      by (simp add: wf_state_def arr)
  qed
qed

text \<open>
  C10 (the code at the failing input).  With \<^verbatim>\<open>RTAPI_MAX_RINGS\<close> = 8, module 9 attaches
  to the ring in slot 0, whose bitmap becomes \<open>{3, 9}\<close>.  Then module 3 detaches.  The call
  returns 0 and removes 3 from the bitmap, and it frees the slot (the tag is 0 afterwards)
  although module 9 is still attached: the count \<^verbatim>\<open>_rtapi_ring_refcount\<close> computes for
  the bitmap \<open>{9}\<close> is 0, because its loop tests the bits 0 to 7 only.
\<close>

theorem detach_frees_slot_with_module_9_attached:
  "rtapi_ring_attach (user_cfg 8) (test_backend True True True True) 0 9 (one_ring {3}) =
     Some (0, one_ring {3, 9}) \<and>
   RING_MAGIC (user_cfg 8) = 1380535879 \<and>
   magic (ring_array (one_ring {3, 9}) ! 0) = 1380535879 \<and>
   rtapi_ring_detach (user_cfg 8) (test_backend True True True True) 0 3 (one_ring {3, 9}) =
     Some (0, (upd_slot 0 (\<lambda>rd. rd\<lparr>magic := 0\<rparr>) (one_ring {9}))\<lparr>msgs := [mutex_not_set]\<rparr>) \<and>
   magic (ring_array
     ((upd_slot 0 (\<lambda>rd. rd\<lparr>magic := 0\<rparr>) (one_ring {9}))\<lparr>msgs := [mutex_not_set]\<rparr>) ! 0) = 0 \<and>
   bitmap (ring_array
     ((upd_slot 0 (\<lambda>rd. rd\<lparr>magic := 0\<rparr>) (one_ring {9}))\<lparr>msgs := [mutex_not_set]\<rparr>) ! 0) = {9} \<and>
   card {9::int} = 1 \<and>
   count_bits (user_cfg 8) {9} 0 0 = 0"
  by (simp add: one_ring_def sample_defs op_defs insert_commute)

lemma rtapi_ring_detach_last:
  assumes "wf_state cfg s" and "0 \<le> handle" and "handle < int (RTAPI_MAX_RINGS cfg)"
    and "magic (ring_array s ! nat handle) = RING_MAGIC cfg" and "\<not> mutex s"
    and "counted cfg (bitmap (ring_array s ! nat handle) - {module_id}) = {}"
  shows "rtapi_ring_detach cfg be handle module_id s =
           Some (0, ring_autorelease_mutex (snd (detach_release be (nat handle)
             (upd_slot (nat handle)
                (\<lambda>rd. rd\<lparr>bitmap := clear_bit_bm module_id (bitmap rd)\<rparr>) s))))"
proof -
  let ?c = "upd_slot (nat handle) (\<lambda>rd. rd\<lparr>bitmap := clear_bit_bm module_id (bitmap rd)\<rparr>) s"
  have hc: "nat handle < length (ring_array ?c)"
    using assms(1-3) by (simp add: wf_state_def)
  have rel: "detach_release be (nat handle) ?c = (0, snd (detach_release be (nat handle) ?c))"
    using detach_release_slot(1) [OF hc, of be] by (metis prod.collapse)
  have "ring_detach_body cfg be handle module_id s =
        Some (0, snd (detach_release be (nat handle) ?c))"
    using ring_detach_body_committed [OF assms(1-5), of be module_id] assms(6) rel by simp
  then show ?thesis
    by (simp add: rtapi_ring_detach_def)
qed

lemma rtapi_ring_detach_invalid:
  assumes "handle < 0 \<or> int (RTAPI_MAX_RINGS cfg) \<le> handle \<or>
     magic (ring_array s ! nat handle) \<noteq> RING_MAGIC cfg"
  shows "rtapi_ring_detach cfg be handle module_id s =
           Some (- EINVAL, ring_autorelease_mutex s)"
  using ring_detach_body_invalid [OF assms, of be module_id]
  by (simp add: rtapi_ring_detach_def)


text \<open>
  C5.  Let the slot of \<open>handle\<close> be committed with \<open>module_id\<close> its only attacher (and
  \<^verbatim>\<open>rtapi_data->mutex\<close> free).  Then \<^verbatim>\<open>_rtapi_ring_detach(handle, module_id)\<close> returns 0
  whatever \<^verbatim>\<open>_rtapi_shmem_delete\<close> returns; the backend state afterwards is the one
  \<^verbatim>\<open>_rtapi_shmem_delete\<close> left, called with the segment id and the owner of the slot; a
  failed deletion is in the messages; the tag of the slot is 0.  After that
  \<^verbatim>\<open>_rtapi_ring_refcount(handle)\<close> returns \<^verbatim>\<open>-EINVAL\<close>, the same detach again returns
  \<^verbatim>\<open>-EINVAL\<close> and changes no slot, and a successful \<^verbatim>\<open>_rtapi_ring_new\<close> returns a
  handle not above \<open>handle\<close>: \<open>handle\<close> itself when every slot below it is committed.
  The handle is reused indeed: when every slot below it is committed and the backend
  creates and maps the segment, \<^verbatim>\<open>_rtapi_ring_new\<close> returns \<open>handle\<close> and the slot is
  committed again, with the new creator in its bitmap.
\<close>

theorem detach_last_attacher_frees_slot:
  assumes "wf_state cfg s" and "RING_MAGIC cfg \<noteq> 0"
    and "0 \<le> handle" and "handle < int (RTAPI_MAX_RINGS cfg)"
    and "magic (ring_array s ! nat handle) = RING_MAGIC cfg"
    and "bitmap (ring_array s ! nat handle) = {module_id}" and "\<not> mutex s"
  shows "\<exists>s'. rtapi_ring_detach cfg be handle module_id s = Some (0, s') \<and>
           shm s' = snd (shmem_delete be (shmem_id (ring_array s ! nat handle))
                           (owner (ring_array s ! nat handle)) (shm s)) \<and>
           (fst (shmem_delete be (shmem_id (ring_array s ! nat handle))
                   (owner (ring_array s ! nat handle)) (shm s)) \<noteq> 0 \<longrightarrow>
              msg_detach_delete \<in> set (msgs s')) \<and>
           magic (ring_array s' ! nat handle) = 0 \<and>
           magic (ring_array s' ! nat handle) \<noteq> RING_MAGIC cfg \<and>
           rtapi_ring_refcount cfg handle s' = Some (- EINVAL, s') \<and>
           (\<exists>t. rtapi_ring_detach cfg be handle module_id s' = Some (- EINVAL, t) \<and>
                ring_array t = ring_array s') \<and>
           (\<forall>rsize sp_size owner_id flags r t.
              rtapi_ring_new cfg be rsize sp_size owner_id flags s' = Some (r, t) \<and> 0 \<le> r \<longrightarrow>
                r \<le> handle \<and>
                ((\<forall>j < nat handle. magic (ring_array s ! j) = RING_MAGIC cfg) \<longrightarrow> r = handle)) \<and>
           (\<forall>rsize sp_size owner_id flags.
              (\<forall>j < nat handle. magic (ring_array s ! j) = RING_MAGIC cfg) \<and>
              0 \<le> fst (shmem_new be (RTAPI_RING_SHM_KEY cfg + handle) owner_id
                         (ring_memsize be flags rsize sp_size) (shm s')) \<and>
              fst (fst (shmem_getptr be
                 (fst (shmem_new be (RTAPI_RING_SHM_KEY cfg + handle) owner_id
                         (ring_memsize be flags rsize sp_size) (shm s')))
                 (snd (shmem_new be (RTAPI_RING_SHM_KEY cfg + handle) owner_id
                         (ring_memsize be flags rsize sp_size) (shm s'))))) = 0 \<longrightarrow>
              (\<exists>t. rtapi_ring_new cfg be rsize sp_size owner_id flags s' = Some (handle, t) \<and>
                 magic (ring_array t ! nat handle) = RING_MAGIC cfg \<and>
                 owner_id \<in> bitmap (ring_array t ! nat handle)))"
proof -
  let ?c = "upd_slot (nat handle) (\<lambda>rd. rd\<lparr>bitmap := clear_bit_bm module_id (bitmap rd)\<rparr>) s"
  let ?s' = "ring_autorelease_mutex (snd (detach_release be (nat handle) ?c))"
  let ?del = "shmem_delete be (shmem_id (ring_array s ! nat handle))
                (owner (ring_array s ! nat handle)) (shm s)"
  have h: "nat handle < length (ring_array s)" and hmax: "nat handle < RTAPI_MAX_RINGS cfg"
    using assms(1,3,4) by (simp_all add: wf_state_def)
  have hc: "nat handle < length (ring_array ?c)" using h by simp
  have empty: "counted cfg (bitmap (ring_array s ! nat handle) - {module_id}) = {}"
    using assms(6) by (simp add: counted_def)
  have det: "rtapi_ring_detach cfg be handle module_id s = Some (0, ?s')"
    using rtapi_ring_detach_last [OF assms(1,3,4,5,7) empty] .
  have slot: "ring_array ?c ! nat handle =
         (ring_array s ! nat handle)\<lparr>bitmap := bitmap (ring_array s ! nat handle) - {module_id}\<rparr>"
    using detach_cleared_slot [OF h] .
  have arr: "ring_array ?s' = (ring_array ?c)[nat handle := (ring_array ?c ! nat handle)\<lparr>magic := 0\<rparr>]"
    using detach_release_slot(2) [OF hc, of be] by simp
  have shm: "shm ?s' = snd ?del"
    using detach_release_slot(3) [OF hc, of be] slot by simp
  have logged: "fst ?del \<noteq> 0 \<longrightarrow> msg_detach_delete \<in> set (msgs ?s')"
    using detach_release_slot(4) [OF hc, of be] slot by simp
  have tag0: "magic (ring_array ?s' ! nat handle) = 0"
    using arr hc by simp
  then have tag: "magic (ring_array ?s' ! nat handle) \<noteq> RING_MAGIC cfg"
    using assms(2) by simp
  have mfree: "\<not> mutex ?s'"
    using detach_release_slot(5) [OF hc, of be] assms(7) by simp
  have count: "rtapi_ring_refcount cfg handle ?s' = Some (- EINVAL, ?s')"
    using rtapi_ring_refcount_free [OF mfree, of cfg handle]
      ring_refcount_body_invalid [of handle cfg ?s'] tag by simp
  have again: "\<exists>t. rtapi_ring_detach cfg be handle module_id ?s' = Some (- EINVAL, t) \<and>
                ring_array t = ring_array ?s'"
    using rtapi_ring_detach_invalid [of handle cfg ?s' be module_id] tag by simp
  have wf': "wf_state cfg ?s'"
    using assms(1) detach_release_slot(6) [OF hc, of be] arr by (simp add: wf_state_def)
  have others: "j \<noteq> nat handle \<Longrightarrow> ring_array ?s' ! j = ring_array s ! j" for j
    using arr by (simp add: clear_bit_bm_def)
  have reuse: "r \<le> handle \<and>
        ((\<forall>j < nat handle. magic (ring_array s ! j) = RING_MAGIC cfg) \<longrightarrow> r = handle)"
    if new: "rtapi_ring_new cfg be rsize sp_size owner_id flags ?s' = Some (r, t)"
      and ok: "0 \<le> r" for rsize sp_size owner_id flags r t
  proof -
    have nf: "\<not> new_fails cfg be rsize sp_size owner_id flags ?s'"
      using rtapi_ring_new_negative [OF wf' new] ok by simp
    have r: "r = int (new_slot cfg ?s')"
      using rtapi_ring_new_result(1) [OF wf' new] nf by simp
    have le: "new_slot cfg ?s' \<le> nat handle"
      using new_slot_upto_free [OF hmax tag] .
    have "new_slot cfg ?s' = nat handle"
      if low: "\<forall>j < nat handle. magic (ring_array s ! j) = RING_MAGIC cfg"
    proof (rule ccontr)
      assume "new_slot cfg ?s' \<noteq> nat handle"
      then have lt: "new_slot cfg ?s' < nat handle" using le by simp
      then have "magic (ring_array ?s' ! new_slot cfg ?s') = RING_MAGIC cfg"
        using low others [of "new_slot cfg ?s'"] by simp
      moreover have "new_slot cfg ?s' \<noteq> RTAPI_MAX_RINGS cfg" using lt hmax by simp
      ultimately show False using new_slot_free [of cfg ?s'] by simp
    qed
    then show ?thesis using r le assms(3) by auto
  qed
  have reuse_all: "\<forall>rsize sp_size owner_id flags r t.
              rtapi_ring_new cfg be rsize sp_size owner_id flags ?s' = Some (r, t) \<and> 0 \<le> r \<longrightarrow>
                r \<le> handle \<and>
                ((\<forall>j < nat handle. magic (ring_array s ! j) = RING_MAGIC cfg) \<longrightarrow> r = handle)"
    using reuse by blast
  have rfree: "\<not> ring_mutex ?s'" by simp
  have again_new: "\<exists>t. rtapi_ring_new cfg be rsize sp_size owner_id flags ?s' = Some (handle, t) \<and>
                 magic (ring_array t ! nat handle) = RING_MAGIC cfg \<and>
                 owner_id \<in> bitmap (ring_array t ! nat handle)"
    if a: "(\<forall>j < nat handle. magic (ring_array s ! j) = RING_MAGIC cfg) \<and>
              0 \<le> fst (shmem_new be (RTAPI_RING_SHM_KEY cfg + handle) owner_id
                         (ring_memsize be flags rsize sp_size) (shm ?s')) \<and>
              fst (fst (shmem_getptr be
                 (fst (shmem_new be (RTAPI_RING_SHM_KEY cfg + handle) owner_id
                         (ring_memsize be flags rsize sp_size) (shm ?s')))
                 (snd (shmem_new be (RTAPI_RING_SHM_KEY cfg + handle) owner_id
                         (ring_memsize be flags rsize sp_size) (shm ?s'))))) = 0"
    for rsize sp_size owner_id flags
  proof -
    have int_h: "int (nat handle) = handle" using assms(3) by simp
    have low: "\<forall>j < nat handle. magic (ring_array ?s' ! j) = RING_MAGIC cfg"
      using a others by simp
    have seg: "0 \<le> fst (shmem_new be (RTAPI_RING_SHM_KEY cfg + int (nat handle)) owner_id
                         (ring_memsize be flags rsize sp_size) (shm ?s'))"
      and map: "fst (fst (shmem_getptr be
                 (fst (shmem_new be (RTAPI_RING_SHM_KEY cfg + int (nat handle)) owner_id
                         (ring_memsize be flags rsize sp_size) (shm ?s')))
                 (snd (shmem_new be (RTAPI_RING_SHM_KEY cfg + int (nat handle)) owner_id
                         (ring_memsize be flags rsize sp_size) (shm ?s'))))) = 0"
      using a unfolding int_h by simp_all
    from rtapi_ring_new_lowest_free [OF wf' rfree hmax tag low seg map]
    show ?thesis unfolding int_h by blast
  qed
  have again_new_all: "\<forall>rsize sp_size owner_id flags.
              (\<forall>j < nat handle. magic (ring_array s ! j) = RING_MAGIC cfg) \<and>
              0 \<le> fst (shmem_new be (RTAPI_RING_SHM_KEY cfg + handle) owner_id
                         (ring_memsize be flags rsize sp_size) (shm ?s')) \<and>
              fst (fst (shmem_getptr be
                 (fst (shmem_new be (RTAPI_RING_SHM_KEY cfg + handle) owner_id
                         (ring_memsize be flags rsize sp_size) (shm ?s')))
                 (snd (shmem_new be (RTAPI_RING_SHM_KEY cfg + handle) owner_id
                         (ring_memsize be flags rsize sp_size) (shm ?s'))))) = 0 \<longrightarrow>
              (\<exists>t. rtapi_ring_new cfg be rsize sp_size owner_id flags ?s' = Some (handle, t) \<and>
                 magic (ring_array t ! nat handle) = RING_MAGIC cfg \<and>
                 owner_id \<in> bitmap (ring_array t ! nat handle))"
    using again_new by blast
  show ?thesis
    by (intro exI [of _ ?s'] conjI det shm logged tag0 tag count again reuse_all again_new_all)
qed

theorem detach_last_attacher_frees_slot_witness:
  "wf_state (user_cfg 8) (two_rings {3}) \<and> RING_MAGIC (user_cfg 8) \<noteq> 0 \<and>
   magic (ring_array (two_rings {3}) ! nat 1) = RING_MAGIC (user_cfg 8) \<and>
   bitmap (ring_array (two_rings {3}) ! nat 1) = {3} \<and> \<not> mutex (two_rings {3}) \<and>
   shmem_delete (test_backend True True False True) 2 3 2 = (- EINVAL, 2) \<and>
   rtapi_ring_detach (user_cfg 8) (test_backend True True False True) 1 3 (two_rings {3}) =
     Some (0, (upd_slot 1 (\<lambda>rd. rd\<lparr>magic := 0\<rparr>) (two_rings {}))
                \<lparr>msgs := [msg_detach_delete, mutex_not_set]\<rparr>) \<and>
   rtapi_ring_refcount (user_cfg 8) 1
     ((upd_slot 1 (\<lambda>rd. rd\<lparr>magic := 0\<rparr>) (two_rings {}))
        \<lparr>msgs := [msg_detach_delete, mutex_not_set]\<rparr>) =
     Some (- EINVAL, (upd_slot 1 (\<lambda>rd. rd\<lparr>magic := 0\<rparr>) (two_rings {}))
                \<lparr>msgs := [msg_detach_delete, mutex_not_set]\<rparr>) \<and>
   fst (the (rtapi_ring_detach (user_cfg 8) (test_backend True True False True) 1 3
     ((upd_slot 1 (\<lambda>rd. rd\<lparr>magic := 0\<rparr>) (two_rings {}))
        \<lparr>msgs := [msg_detach_delete, mutex_not_set]\<rparr>))) = - EINVAL \<and>
   rtapi_ring_new (user_cfg 8) (test_backend True True False True) 4096 0 5 0
     ((upd_slot 1 (\<lambda>rd. rd\<lparr>magic := 0\<rparr>) (two_rings {}))
        \<lparr>msgs := [msg_detach_delete, mutex_not_set]\<rparr>) =
     Some (1, (upd_slot 1 (\<lambda>rd. rd\<lparr>owner := 5, shmem_id := 3\<rparr>) (two_rings {5}))
                \<lparr>ring_addr_array := 4096 # 12288 # replicate 7 NULL, shm := 3,
                 msgs := [msg_detach_delete, mutex_not_set]\<rparr>)"
proof -
  let ?be = "test_backend True True False True"
  let ?freed = "(upd_slot 1 (\<lambda>rd. rd\<lparr>magic := 0\<rparr>) (two_rings {}))
                \<lparr>msgs := [msg_detach_delete, mutex_not_set]\<rparr>"
  have wf: "wf_state (user_cfg 8) (two_rings {3})"
    by (simp add: two_rings_def sample_defs)
  have magic: "RING_MAGIC (user_cfg 8) \<noteq> 0"
    by (simp add: user_cfg_def)
  have range: "(0::int) \<le> 1" "1 < int (RTAPI_MAX_RINGS (user_cfg 8))"
    by (simp_all add: user_cfg_def)
  have committed: "magic (ring_array (two_rings {3}) ! nat 1) = RING_MAGIC (user_cfg 8)"
    by (simp add: two_rings_def user_cfg_def)
  have only: "bitmap (ring_array (two_rings {3}) ! nat 1) = {3}"
    by (simp add: two_rings_def)
  have free: "\<not> mutex (two_rings {3})"
    by (simp add: two_rings_def)
  have del: "shmem_delete ?be 2 3 2 = (- EINVAL, 2)"
    by (simp add: test_backend_def)
  have det: "rtapi_ring_detach (user_cfg 8) ?be 1 3 (two_rings {3}) = Some (0, ?freed)"
    by (simp add: two_rings_def sample_defs op_defs)
  have low: "\<forall>j < nat 1. magic (ring_array (two_rings {3}) ! j) = RING_MAGIC (user_cfg 8)"
    by (simp add: two_rings_def user_cfg_def)
  have shmf: "shm ?freed = 2"
    by (simp add: two_rings_def upd_slot_def)
  have seg: "0 \<le> fst (shmem_new ?be (RTAPI_RING_SHM_KEY (user_cfg 8) + 1) 5
                         (ring_memsize ?be 0 4096 0) (shm ?freed))"
    and map: "fst (fst (shmem_getptr ?be
                 (fst (shmem_new ?be (RTAPI_RING_SHM_KEY (user_cfg 8) + 1) 5
                         (ring_memsize ?be 0 4096 0) (shm ?freed)))
                 (snd (shmem_new ?be (RTAPI_RING_SHM_KEY (user_cfg 8) + 1) 5
                         (ring_memsize ?be 0 4096 0) (shm ?freed))))) = 0"
    by (simp_all add: test_backend_def)
  from detach_last_attacher_frees_slot [OF wf magic range committed only free, of ?be]
  obtain s' where d: "rtapi_ring_detach (user_cfg 8) ?be 1 3 (two_rings {3}) = Some (0, s')"
    and c: "rtapi_ring_refcount (user_cfg 8) 1 s' = Some (- EINVAL, s')"
    and a: "\<exists>t. rtapi_ring_detach (user_cfg 8) ?be 1 3 s' = Some (- EINVAL, t) \<and>
              ring_array t = ring_array s'"
    and n: "\<forall>rsize sp_size owner_id flags.
              (\<forall>j < nat 1. magic (ring_array (two_rings {3}) ! j) = RING_MAGIC (user_cfg 8)) \<and>
              0 \<le> fst (shmem_new ?be (RTAPI_RING_SHM_KEY (user_cfg 8) + 1) owner_id
                         (ring_memsize ?be flags rsize sp_size) (shm s')) \<and>
              fst (fst (shmem_getptr ?be
                 (fst (shmem_new ?be (RTAPI_RING_SHM_KEY (user_cfg 8) + 1) owner_id
                         (ring_memsize ?be flags rsize sp_size) (shm s')))
                 (snd (shmem_new ?be (RTAPI_RING_SHM_KEY (user_cfg 8) + 1) owner_id
                         (ring_memsize ?be flags rsize sp_size) (shm s'))))) = 0 \<longrightarrow>
              (\<exists>t. rtapi_ring_new (user_cfg 8) ?be rsize sp_size owner_id flags s' = Some (1, t) \<and>
                 magic (ring_array t ! nat 1) = RING_MAGIC (user_cfg 8) \<and>
                 owner_id \<in> bitmap (ring_array t ! nat 1))"
    by blast
  have s': "s' = ?freed" using d det by simp
  have count: "rtapi_ring_refcount (user_cfg 8) 1 ?freed = Some (- EINVAL, ?freed)"
    using c unfolding s' .
  have again: "fst (the (rtapi_ring_detach (user_cfg 8) ?be 1 3 ?freed)) = - EINVAL"
    using a unfolding s' by auto
  have "\<exists>t. rtapi_ring_new (user_cfg 8) ?be 4096 0 5 0 ?freed = Some (1, t)"
    using n [unfolded s'] low seg map by blast
  moreover have new: "rtapi_ring_new (user_cfg 8) ?be 4096 0 5 0 ?freed =
     Some (1, (upd_slot 1 (\<lambda>rd. rd\<lparr>owner := 5, shmem_id := 3\<rparr>) (two_rings {5}))
                \<lparr>ring_addr_array := 4096 # 12288 # replicate 7 NULL, shm := 3,
                 msgs := [msg_detach_delete, mutex_not_set]\<rparr>)"
    by (simp add: two_rings_def sample_defs op_defs)
  ultimately show ?thesis
    using wf magic committed only free del det count again by simp
qed

subsection \<open>The invariant of the reachable states\<close>

lemma counted_member: "module_in_range cfg m \<Longrightarrow> m \<in> bm \<Longrightarrow> counted cfg bm \<noteq> {}"
  by (auto simp: counted_def module_in_range_def)

lemma counted_mono: "bm \<subseteq> bm' \<Longrightarrow> counted cfg bm \<noteq> {} \<Longrightarrow> counted cfg bm' \<noteq> {}"
  by (auto simp: counted_def)

lemma ring_inv_initial: "initial cfg s \<Longrightarrow> ring_inv cfg s"
  by (simp add: initial_def ring_inv_def committed_upto_def)

lemma ring_inv_new:
  assumes inv: "ring_inv cfg s" and m: "module_in_range cfg module_id"
    and new: "rtapi_ring_new cfg be rsize sp_size module_id flags s = Some (r, s')"
  shows "ring_inv cfg s'"
proof -
  have wf: "wf_state cfg s" using inv by (simp add: ring_inv_def)
  have len: "length (ring_array s) = RTAPI_MAX_RINGS cfg" using wf by (simp add: wf_state_def)
  have slots: "counted cfg (bitmap (ring_array s' ! j)) \<noteq> {}"
    if j: "j < RTAPI_MAX_RINGS cfg" and tag: "magic (ring_array s' ! j) = RING_MAGIC cfg" for j
  proof (cases "j = new_slot cfg s \<and> \<not> new_fails cfg be rsize sp_size module_id flags s")
    case True
    then have "module_id \<in> bitmap (ring_array s' ! j)"
      using rtapi_ring_new_result(2) [OF wf new] j len
      by (simp add: new_fails_def set_bit_bm_def)
    then show ?thesis using counted_member [OF m] by simp
  next
    case False
    then have "magic (ring_array s' ! j) = magic (ring_array s ! j) \<and>
               bitmap (ring_array s' ! j) = bitmap (ring_array s ! j)"
      using rtapi_ring_new_result(2) [OF wf new] j len
      by (cases "j = new_slot cfg s") (auto simp: new_fails_def)
    then show ?thesis using inv j tag by (simp add: ring_inv_def)
  qed
  show ?thesis
    using rtapi_ring_new_wf [OF wf new] rtapi_ring_new_locks [OF new] inv slots
    by (simp add: ring_inv_def)
qed

lemma ring_attach_body_out_of_range:
  "handle < 0 \<or> int (RTAPI_MAX_RINGS cfg) \<le> handle \<Longrightarrow>
   ring_attach_body cfg be handle module_id s = (- EINVAL, s)"
  by (auto simp: ring_attach_body_def)

lemma ring_attach_body_slot:
  assumes "nat handle < length (ring_array s)"
  shows "magic (ring_array (snd (ring_attach_body cfg be handle module_id s)) ! nat handle) =
           RING_MAGIC cfg \<longrightarrow>
         magic (ring_array s ! nat handle) = RING_MAGIC cfg \<or>
         module_id \<in>
           bitmap (ring_array (snd (ring_attach_body cfg be handle module_id s)) ! nat handle)"
    and "bitmap (ring_array s ! nat handle) \<subseteq>
           bitmap (ring_array (snd (ring_attach_body cfg be handle module_id s)) ! nat handle)"
  using assms by (auto simp: attach_body_defs split: prod.splits if_splits)

lemma ring_inv_attach:
  assumes inv: "ring_inv cfg s" and m: "module_in_range cfg module_id"
    and att: "rtapi_ring_attach cfg be handle module_id s = Some (r, s')"
  shows "ring_inv cfg s'"
proof -
  let ?s0 = "s\<lparr>ring_mutex := True\<rparr>"
  let ?b = "snd (ring_attach_body cfg be handle module_id ?s0)"
  have wf: "wf_state cfg s" using inv by (simp add: ring_inv_def)
  have len: "length (ring_array ?s0) = RTAPI_MAX_RINGS cfg" using wf by (simp add: wf_state_def)
  have arr: "ring_array s' = ring_array ?b"
    by (simp add: rtapi_ring_attach_SomeD(3) [OF att])
  have slots: "counted cfg (bitmap (ring_array ?b ! j)) \<noteq> {}"
    if j: "j < RTAPI_MAX_RINGS cfg" and tag: "magic (ring_array ?b ! j) = RING_MAGIC cfg" for j
  proof (cases "j = nat handle \<and> 0 \<le> handle \<and> handle < int (RTAPI_MAX_RINGS cfg)")
    case True
    then have h: "nat handle < length (ring_array ?s0)" using len by (simp add: nat_less_iff)
    from ring_attach_body_slot [OF h, of cfg be module_id] tag True
    have disj: "magic (ring_array s ! j) = RING_MAGIC cfg \<or>
        module_id \<in> bitmap (ring_array ?b ! j)"
      and sub: "bitmap (ring_array s ! j) \<subseteq> bitmap (ring_array ?b ! j)"
      by simp_all
    from disj show ?thesis
    proof
      assume "magic (ring_array s ! j) = RING_MAGIC cfg"
      then have "counted cfg (bitmap (ring_array s ! j)) \<noteq> {}"
        using inv j by (simp add: ring_inv_def)
      then show ?thesis using counted_mono [OF sub] by simp
    next
      assume "module_id \<in> bitmap (ring_array ?b ! j)"
      then show ?thesis using counted_member [OF m] by simp
    qed
  next
    case False
    have "ring_array ?b ! j = ring_array s ! j"
    proof (cases "0 \<le> handle \<and> handle < int (RTAPI_MAX_RINGS cfg)")
      case True
      then have "j \<noteq> nat handle" using False by simp
      then show ?thesis
        using ring_attach_body_other_slots [of j handle cfg be module_id ?s0] by simp
    next
      case False
      then show ?thesis
        using ring_attach_body_out_of_range [of handle cfg be module_id ?s0] by auto
    qed
    then show ?thesis using inv j tag by (simp add: ring_inv_def)
  qed
  show ?thesis
    using rtapi_ring_attach_wf [OF wf att] rtapi_ring_attach_locks [OF att] inv slots arr
    by (simp add: ring_inv_def)
qed

lemma ring_inv_refcount:
  assumes "ring_inv cfg s" and "rtapi_ring_refcount cfg handle s = Some (r, s')"
  shows "ring_inv cfg s'"
proof -
  have "\<not> mutex s" using assms(1) by (simp add: ring_inv_def)
  then have "s' = s" using assms(2) by (simp add: rtapi_ring_refcount_free)
  then show ?thesis using assms(1) by simp
qed

lemma ring_inv_detach:
  assumes magic: "RING_MAGIC cfg \<noteq> 0" and inv: "ring_inv cfg s"
    and det: "rtapi_ring_detach cfg be handle module_id s = Some (r, s')"
  shows "ring_inv cfg s'"
proof (cases "0 \<le> handle \<and> handle < int (RTAPI_MAX_RINGS cfg) \<and>
    magic (ring_array s ! nat handle) = RING_MAGIC cfg")
  case False
  then have "s' = ring_autorelease_mutex s"
    using rtapi_ring_detach_invalid [of handle cfg s be module_id] det by auto
  then show ?thesis using inv by (simp add: ring_inv_def wf_state_def)
next
  case True
  have wf: "wf_state cfg s" and free: "\<not> mutex s" using inv by (simp_all add: ring_inv_def)
  have h: "nat handle < length (ring_array s)"
    using wf True by (simp add: wf_state_def nat_less_iff)
  from rtapi_ring_detach_committed [of cfg s handle be module_id] wf True free
  obtain t where t: "rtapi_ring_detach cfg be handle module_id s = Some (0, t)"
    and locks: "\<not> ring_mutex t" "\<not> mutex t" and wft: "wf_state cfg t"
    and arr: "ring_array t = (ring_array s)[nat handle := (ring_array s ! nat handle)
              \<lparr>bitmap := bitmap (ring_array s ! nat handle) - {module_id},
               magic := (if counted cfg (bitmap (ring_array s ! nat handle) - {module_id}) \<noteq> {}
                         then RING_MAGIC cfg else 0)\<rparr>]"
    by blast
  have s': "s' = t" using det t by simp
  have slots: "counted cfg (bitmap (ring_array t ! j)) \<noteq> {}"
    if j: "j < RTAPI_MAX_RINGS cfg" and tag: "magic (ring_array t ! j) = RING_MAGIC cfg" for j
  proof (cases "j = nat handle")
    case True
    then show ?thesis using arr h tag magic by (auto split: if_splits)
  next
    case False
    then have "ring_array t ! j = ring_array s ! j" using arr by simp
    then show ?thesis using inv j tag by (simp add: ring_inv_def)
  qed
  show ?thesis
    unfolding s' using locks wft slots by (simp add: ring_inv_def)
qed

lemma reachable_ring_inv:
  assumes "RING_MAGIC cfg \<noteq> 0" and "reachable cfg be s"
  shows "ring_inv cfg s"
  using assms(2)
proof (induction rule: reachable.induct)
  case (start s)
  then show ?case by (rule ring_inv_initial)
next
  case (create s module_id rsize sp_size flags r s')
  then show ?case using ring_inv_new by blast
next
  case (attach s module_id handle r s')
  then show ?case using ring_inv_attach by blast
next
  case (detach s module_id handle r s')
  then show ?case using ring_inv_detach [OF assms(1)] by blast
next
  case (refcount s handle r s')
  then show ?case using ring_inv_refcount by blast
qed

text \<open>
  C8.  In every state reached from an initial state by completed calls of
  \<^verbatim>\<open>_rtapi_ring_new\<close>, \<^verbatim>\<open>_rtapi_ring_attach\<close>, \<^verbatim>\<open>_rtapi_ring_detach\<close> and
  \<^verbatim>\<open>_rtapi_ring_refcount\<close>, with module ids in the counted range, every slot whose tag is
  \<^verbatim>\<open>RING_MAGIC\<close> has a bit set in its bitmap.  (\<^verbatim>\<open>RING_MAGIC\<close> is not 0, the value
  \<^verbatim>\<open>_rtapi_ring_detach\<close> stores to free a slot.)
\<close>

theorem committed_slot_has_attacher:
  assumes "RING_MAGIC cfg \<noteq> 0" and "reachable cfg be s"
  shows "\<forall>j < RTAPI_MAX_RINGS cfg.
           magic (ring_array s ! j) = RING_MAGIC cfg \<longrightarrow> bitmap (ring_array s ! j) \<noteq> {}"
proof (intro allI impI)
  fix j
  assume "j < RTAPI_MAX_RINGS cfg" and "magic (ring_array s ! j) = RING_MAGIC cfg"
  then have "counted cfg (bitmap (ring_array s ! j)) \<noteq> {}"
    using reachable_ring_inv [OF assms] by (simp add: ring_inv_def)
  then show "bitmap (ring_array s ! j) \<noteq> {}"
    by (auto simp: counted_def)
qed

lemma initial_empty_table: "initial (user_cfg 8) (empty_table (user_cfg 8) (0::nat))"
  by (simp add: initial_def committed_upto_def wf_state_def user_cfg_def empty_table_def
      free_slot_def)

theorem committed_slot_has_attacher_witness:
  "RING_MAGIC (user_cfg 8) \<noteq> 0 \<and>
   reachable (user_cfg 8) (test_backend True True True True) (one_ring {3, 7}) \<and>
   (0::nat) < RTAPI_MAX_RINGS (user_cfg 8) \<and>
   magic (ring_array (one_ring {3, 7}) ! 0) = RING_MAGIC (user_cfg 8) \<and>
   bitmap (ring_array (one_ring {3, 7}) ! 0) \<noteq> {}"
proof -
  have magic: "RING_MAGIC (user_cfg 8) \<noteq> 0"
    by (simp add: user_cfg_def)
  have m7: "module_in_range (user_cfg 8) 7" and m3: "module_in_range (user_cfg 8) 3"
    by (simp_all add: module_in_range_def user_cfg_def)
  have "reachable (user_cfg 8) (test_backend True True True True) (empty_table (user_cfg 8) 0)"
    using initial_empty_table by (rule reachable.start)
  then have "reachable (user_cfg 8) (test_backend True True True True) (one_ring {7})"
    using m7 one_ring_created by (rule reachable.create)
  then have reach: "reachable (user_cfg 8) (test_backend True True True True) (one_ring {3, 7})"
    using m3 one_ring_attach [of "{7}"] by (rule reachable.attach)
  have lt: "(0::nat) < RTAPI_MAX_RINGS (user_cfg 8)"
    by (simp add: user_cfg_def)
  have tag: "magic (ring_array (one_ring {3, 7}) ! 0) = RING_MAGIC (user_cfg 8)"
    by (simp add: one_ring_def user_cfg_def)
  have "bitmap (ring_array (one_ring {3, 7}) ! 0) \<noteq> {}"
    using committed_slot_has_attacher [OF magic reach] lt tag by blast
  then show ?thesis
    using magic reach lt tag by simp
qed

subsection \<open>The locks\<close>

lemma msg_neq_mutex_not_set [simp]:
  "msg_new_exceeded \<noteq> mutex_not_set" "msg_new_shmem_new \<noteq> mutex_not_set"
  "msg_new_getptr \<noteq> mutex_not_set" "msg_attach_getptr_k \<noteq> mutex_not_set"
  "msg_attach_bug \<noteq> mutex_not_set" "msg_attach_invalid \<noteq> mutex_not_set"
  "msg_attach_shmem_new \<noteq> mutex_not_set" "msg_attach_getptr \<noteq> mutex_not_set"
  by (simp_all add: msg_new_exceeded_def msg_new_shmem_new_def msg_new_getptr_def
      msg_attach_getptr_k_def msg_attach_bug_def msg_attach_invalid_def
      msg_attach_shmem_new_def msg_attach_getptr_def mutex_not_set_def)

lemma ring_new_body_no_complaint:
  "count_list (msgs (snd (ring_new_body cfg be rsize sp_size module_id flags s))) mutex_not_set =
   count_list (msgs s) mutex_not_set"
  by (simp add: ring_new_body_def ring_new_commit_def Let_def split: prod.splits)

lemma ring_attach_body_no_complaint:
  "count_list (msgs (snd (ring_attach_body cfg be handle module_id s))) mutex_not_set =
   count_list (msgs s) mutex_not_set"
  by (simp add: attach_body_defs split: prod.splits)

lemma rtapi_ring_new_lock:
  assumes "\<not> ring_mutex s"
  shows "\<exists>r s'. rtapi_ring_new cfg be rsize sp_size module_id flags s = Some (r, s') \<and>
           \<not> ring_mutex s' \<and> mutex s' = mutex s \<and>
           count_list (msgs s') mutex_not_set = count_list (msgs s) mutex_not_set"
  using rtapi_ring_new_free [OF assms, of cfg be rsize sp_size module_id flags]
  by (simp add: ring_new_body_frame ring_new_body_no_complaint)

lemma rtapi_ring_attach_lock:
  assumes "\<not> ring_mutex s"
  shows "\<exists>r s'. rtapi_ring_attach cfg be handle module_id s = Some (r, s') \<and>
           \<not> ring_mutex s' \<and> mutex s' = mutex s \<and>
           count_list (msgs s') mutex_not_set = count_list (msgs s) mutex_not_set"
  using rtapi_ring_attach_free [OF assms, of cfg be handle module_id]
  by (simp add: ring_attach_body_locks ring_attach_body_no_complaint)

text \<open>
  C1 (as stated, refuted).  In the state below another caller holds the ring lock
  \<^verbatim>\<open>rtapi_data->ring_mutex\<close>.  \<^verbatim>\<open>_rtapi_ring_new\<close> and \<^verbatim>\<open>_rtapi_ring_attach\<close> wait for
  it.  \<^verbatim>\<open>_rtapi_ring_refcount\<close> does not: it reads the slot and returns 2, since the lock
  it takes is \<^verbatim>\<open>rtapi_data->mutex\<close>.  \<^verbatim>\<open>_rtapi_ring_detach\<close> does not either: it takes
  no lock, changes the bitmap, and its cleanup handler clears the ring lock it never took.
\<close>

theorem single_registry_lock_counterexample:
  "ring_mutex ((one_ring {3, 7})\<lparr>ring_mutex := True\<rparr>) \<and>
   rtapi_ring_new (user_cfg 8) (test_backend True True True True) 4096 0 5 0
     ((one_ring {3, 7})\<lparr>ring_mutex := True\<rparr>) = None \<and>
   rtapi_ring_attach (user_cfg 8) (test_backend True True True True) 0 5
     ((one_ring {3, 7})\<lparr>ring_mutex := True\<rparr>) = None \<and>
   rtapi_ring_refcount (user_cfg 8) 0 ((one_ring {3, 7})\<lparr>ring_mutex := True\<rparr>) =
     Some (2, (one_ring {3, 7})\<lparr>ring_mutex := True\<rparr>) \<and>
   rtapi_ring_detach (user_cfg 8) (test_backend True True True True) 0 3
     ((one_ring {3, 7})\<lparr>ring_mutex := True\<rparr>) =
     Some (0, (one_ring {7})\<lparr>ring_mutex := False, msgs := [msg_detach_remaining]\<rparr>)"
  by (simp add: one_ring_def sample_defs op_defs)

text \<open>
  C1 (amended).  \<^verbatim>\<open>_rtapi_ring_new\<close> and \<^verbatim>\<open>_rtapi_ring_attach\<close> take the ring lock
  before anything else: while it is taken they do not proceed.  When it is free they
  return, and at every exit the cleanup handler finds the lock held (it prints no
  complaint) and frees it; the other lock is untouched.  \<^verbatim>\<open>_rtapi_ring_refcount\<close> does
  the same with the lock \<^verbatim>\<open>rtapi_data->mutex\<close>: it waits while that lock is taken, and
  otherwise returns and leaves the state, both locks included, as it was.
\<close>

theorem lock_discipline:
  "(ring_mutex s \<longrightarrow>
      rtapi_ring_new cfg be rsize sp_size module_id flags s = None \<and>
      rtapi_ring_attach cfg be handle module_id s = None) \<and>
   (\<not> ring_mutex s \<longrightarrow>
      (\<exists>r s'. rtapi_ring_new cfg be rsize sp_size module_id flags s = Some (r, s') \<and>
         \<not> ring_mutex s' \<and> mutex s' = mutex s \<and>
         count_list (msgs s') mutex_not_set = count_list (msgs s) mutex_not_set) \<and>
      (\<exists>r s'. rtapi_ring_attach cfg be handle module_id s = Some (r, s') \<and>
         \<not> ring_mutex s' \<and> mutex s' = mutex s \<and>
         count_list (msgs s') mutex_not_set = count_list (msgs s) mutex_not_set)) \<and>
   (mutex s \<longrightarrow> rtapi_ring_refcount cfg handle s = None) \<and>
   (\<not> mutex s \<longrightarrow> (\<exists>r. rtapi_ring_refcount cfg handle s = Some (r, s)))"
  using rtapi_ring_new_held [of s cfg be rsize sp_size module_id flags]
    rtapi_ring_attach_held [of s cfg be handle module_id]
    rtapi_ring_new_lock [of s cfg be rsize sp_size module_id flags]
    rtapi_ring_attach_lock [of s cfg be handle module_id]
    rtapi_ring_refcount_held [of s cfg handle]
    rtapi_ring_refcount_free [of s cfg handle]
  by blast

theorem lock_discipline_witness:
  "\<not> ring_mutex (one_ring {7}) \<and> \<not> mutex (one_ring {7}) \<and>
   rtapi_ring_new (user_cfg 8) (test_backend True False True True) 4096 0 5 0 (one_ring {7}) =
     Some (- ENOMEM,
       (upd_slot 1 (\<lambda>rd. rd\<lparr>key := 4280321, owner := 5, shmem_id := 2\<rparr>) (one_ring {7}))
         \<lparr>shm := 2, msgs := [msg_new_getptr]\<rparr>) \<and>
   rtapi_ring_attach (user_cfg 8) (test_backend True False True True) 0 3 (one_ring {7}) =
     Some (0, one_ring {3, 7}) \<and>
   rtapi_ring_refcount (user_cfg 8) 0 (one_ring {7}) = Some (1, one_ring {7}) \<and>
   mutex ((one_ring {7})\<lparr>mutex := True\<rparr>) \<and>
   rtapi_ring_refcount (user_cfg 8) 0 ((one_ring {7})\<lparr>mutex := True\<rparr>) = None \<and>
   ring_mutex ((one_ring {7})\<lparr>ring_mutex := True\<rparr>) \<and>
   rtapi_ring_new (user_cfg 8) (test_backend True False True True) 4096 0 5 0
     ((one_ring {7})\<lparr>ring_mutex := True\<rparr>) = None \<and>
   rtapi_ring_attach (user_cfg 8) (test_backend True False True True) 0 5
     ((one_ring {7})\<lparr>ring_mutex := True\<rparr>) = None"
proof -
  have free: "\<not> ring_mutex (one_ring {7})" "\<not> mutex (one_ring {7})"
    by (simp_all add: one_ring_def)
  have new: "rtapi_ring_new (user_cfg 8) (test_backend True False True True) 4096 0 5 0
      (one_ring {7}) =
     Some (- ENOMEM,
       (upd_slot 1 (\<lambda>rd. rd\<lparr>key := 4280321, owner := 5, shmem_id := 2\<rparr>) (one_ring {7}))
         \<lparr>shm := 2, msgs := [msg_new_getptr]\<rparr>)"
    by (simp add: one_ring_def sample_defs op_defs)
  have att: "rtapi_ring_attach (user_cfg 8) (test_backend True False True True) 0 3
      (one_ring {7}) = Some (0, one_ring {3, 7})"
    by (simp add: one_ring_def sample_defs op_defs)
  have cnt: "rtapi_ring_refcount (user_cfg 8) 0 (one_ring {7}) = Some (1, one_ring {7})"
    by (simp add: one_ring_def sample_defs op_defs)
  have held: "mutex ((one_ring {7})\<lparr>mutex := True\<rparr>)" by simp
  have rheld: "ring_mutex ((one_ring {7})\<lparr>ring_mutex := True\<rparr>)" by simp
  have waits: "rtapi_ring_new (user_cfg 8) (test_backend True False True True) 4096 0 5 0
       ((one_ring {7})\<lparr>ring_mutex := True\<rparr>) = None \<and>
     rtapi_ring_attach (user_cfg 8) (test_backend True False True True) 0 5
       ((one_ring {7})\<lparr>ring_mutex := True\<rparr>) = None"
    using lock_discipline [of "(one_ring {7})\<lparr>ring_mutex := True\<rparr>" "user_cfg 8"
        "test_backend True False True True" 4096 0 5 0 0] rheld
    by blast
  have "rtapi_ring_refcount (user_cfg 8) 0 ((one_ring {7})\<lparr>mutex := True\<rparr>) = None"
    using lock_discipline [of "(one_ring {7})\<lparr>mutex := True\<rparr>" "user_cfg 8"
        "test_backend True False True True" 4096 0 5 0 0] held
    by blast
  with waits rheld show ?thesis
    using lock_discipline [of "one_ring {7}" "user_cfg 8" "test_backend True False True True"
        4096 0 5 0 0] free new att cnt held
    by simp
qed

subsection \<open>Return codes\<close>














end
